theory Spec2Isabelle
  imports Main
begin

section \<open>The UDP broadcast peer (peer/peer.go)\<close>

text \<open>
  The program is one \<open>main\<close> function and one goroutine started by it. Both are modelled
  statement by statement: a program counter per thread, named after the line of
  \<open>peer/peer.go\<close> it stands at, the local variables of \<open>main\<close> and of the goroutine as
  fields of one state record, and every call that leaves the program (the clock, the
  random source, the resolver, the sockets, the logger) recorded as an event of a trace.
  What those calls return is not decided by the program; it is a parameter (\<open>env\<close>).
  A run is the state reached from \<open>init\<close> under a schedule: a list saying which thread
  takes the next step.
\<close>

subsection \<open>Values\<close>

text \<open>A Go \<open>string\<close> and a \<open>[]byte\<close> are both sequences of bytes.\<close>

type_synonym bytes = string

text \<open>A Go \<open>error\<close> value; \<open>Error_msg\<close> is its method \<open>Error()\<close>.\<close>

datatype error = Error string

fun Error_msg :: "error \<Rightarrow> string" where
  "Error_msg (Error m) = m"

datatype UDPAddr = UDPAddr (IP: "nat list") (Port: int) (Zone: string)

datatype UDPConn = UDPConn nat

text \<open>Line 21: \<open>const commonPort = 2002\<close>.\<close>

definition commonPort :: int where
  "commonPort = 2002"

text \<open>\<open>time.Second\<close>, a \<open>time.Duration\<close> counted in nanoseconds.\<close>

definition Second :: int where
  "Second = 1000000000"

subsection \<open>strconv.Itoa\<close>

text \<open>
  \<open>strconv.Itoa\<close> writes an \<open>int\<close> in base 10, with a leading minus sign for a negative
  number and no leading zeros.
\<close>

definition digit_char :: "nat \<Rightarrow> char" where
  "digit_char d = ''0123456789'' ! d"

function digits10 :: "nat \<Rightarrow> string" where
  "digits10 k = (if k < 10 then [digit_char k] else digits10 (k div 10) @ [digit_char (k mod 10)])"
  by pat_completeness auto
termination
  by (relation "measure id") auto

declare digits10.simps [simp del]

definition Itoa :: "int \<Rightarrow> string" where
  "Itoa i = (if i < 0 then CHR ''-'' # digits10 (nat (- i)) else digits10 (nat i))"

subsection \<open>Events\<close>

text \<open>An operand of a \<open>%s\<close> verb: a string, or a \<open>*net.UDPAddr\<close> (which may be nil).\<close>

datatype arg = S string | A "UDPAddr option"

text \<open>
  Each event is one call the program makes, with its arguments and, where the call
  returns something, what it returned. \<open>EvReadFromUDP c b a e\<close>: the read on \<open>c\<close> copied
  the bytes \<open>b\<close> into the buffer (so it returned \<open>n = length b\<close>), with sender \<open>a\<close> and
  error \<open>e\<close>.
\<close>

datatype event =
    EvSeed int
  | EvRandInt int
  | EvPrintf string "arg list"
  | EvFatalf string "arg list"
  | EvResolveUDPAddr string string "UDPAddr option" "error option"
  | EvGo
  | EvDialUDP string "UDPAddr option" "UDPAddr option" "UDPConn option" "error option"
  | EvListenUDP string "UDPAddr option" "UDPConn option" "error option"
  | EvSleep int
  | EvWrite "UDPConn option" bytes "error option"
  | EvReadFromUDP "UDPConn option" bytes "UDPAddr option" "error option"
  | EvClose "UDPConn option"
  | EvPanic

subsection \<open>The environment\<close>

text \<open>
  What the operating system hands to one \<open>ReadFromUDP\<close> call: the bytes of the datagram
  that arrived (of any length), the sender, and the error, if any.
\<close>

record datagram =
  dg_payload :: bytes
  dg_from :: "UDPAddr option"
  dg_err :: "error option"

text \<open>
  Everything the program does not decide. The socket calls are given the trace so far,
  so that their answer may differ from one call to the next.
\<close>

record env =
  UnixNano :: int
  rand_Int :: "int \<Rightarrow> int"
  ResolveUDPAddr :: "event list \<Rightarrow> string \<Rightarrow> string \<Rightarrow> UDPAddr option \<times> error option"
  DialUDP :: "event list \<Rightarrow> string \<Rightarrow> UDPAddr option \<Rightarrow> UDPAddr option \<Rightarrow> UDPConn option \<times> error option"
  ListenUDP :: "event list \<Rightarrow> string \<Rightarrow> UDPAddr option \<Rightarrow> UDPConn option \<times> error option"
  conn_Write :: "event list \<Rightarrow> UDPConn option \<Rightarrow> bytes \<Rightarrow> nat \<times> error option"
  recvfrom :: "event list \<Rightarrow> UDPConn option \<Rightarrow> datagram"

text \<open>
  \<open>(*UDPConn).ReadFromUDP(b)\<close> is a library call, not code of the repository. Its
  contract: it copies the datagram into \<open>b\<close>, as many bytes as fit, and returns the number
  of bytes copied, the sender and the error; the rest of \<open>b\<close> keeps what it held (the
  comment on lines 74 to 78 of the source: what does not fit is discarded).
\<close>

definition ReadFromUDP :: "bytes \<Rightarrow> datagram \<Rightarrow> bytes \<times> nat \<times> UDPAddr option \<times> error option" where
  "ReadFromUDP b d =
     (let k = min (length (dg_payload d)) (length b)
      in (take k (dg_payload d) @ drop k b, k, dg_from d, dg_err d))"

subsection \<open>State\<close>

datatype status = Running | Exited int

text \<open>Where \<open>main\<close> stands: the line of its next statement. \<open>L92\<close> is the end of \<open>main\<close>.\<close>

datatype mpc =
    L25 | L26 | L27 | L30 | L31 | L32 | L35 | L38 | L59 | L60 | L61 | L64
  | L67 | L68 | L69 | L72 | L79 | L85 | L86 | L87 | L92

text \<open>Where the goroutine of line 38 stands; \<open>G_idle\<close> before the \<open>go\<close> statement has run.\<close>

datatype gpc = G_idle | G40 | G41 | G42 | G47 | G48 | G49 | G50

record state =
  status :: status
  trace :: "event list"
  mpc :: mpc
  gpc :: gpc
  rng_seed :: int
  v_name :: string
  v_bCastAddr :: "UDPAddr option"
  v_listenAddr :: "UDPAddr option"
  v_err :: "error option"
  v_conn :: "UDPConn option"
  deferred :: "UDPConn option list"
  v_buf :: bytes
  v_n :: nat
  v_addr :: "UDPAddr option"
  g_conn :: "UDPConn option"
  g_err :: "error option"

definition init :: state where
  "init = \<lparr> status = Running, trace = [], mpc = L25, gpc = G_idle, rng_seed = 0,
            v_name = [], v_bCastAddr = None, v_listenAddr = None, v_err = None,
            v_conn = None, deferred = [], v_buf = [], v_n = 0, v_addr = None,
            g_conn = None, g_err = None \<rparr>"

definition emit :: "event \<Rightarrow> state \<Rightarrow> state" where
  "emit e s = s\<lparr> trace := trace s @ [e] \<rparr>"

text \<open>\<open>log.Printf\<close> writes one line.\<close>

definition Printf :: "string \<Rightarrow> arg list \<Rightarrow> state \<Rightarrow> state" where
  "Printf fmt args s = emit (EvPrintf fmt args) s"

text \<open>\<open>log.Fatalf\<close> writes one line and calls \<open>os.Exit(1)\<close>: the whole process ends.\<close>

definition Fatalf :: "string \<Rightarrow> arg list \<Rightarrow> state \<Rightarrow> state" where
  "Fatalf fmt args s = (emit (EvFatalf fmt args) s)\<lparr> status := Exited 1 \<rparr>"

text \<open>Running the deferred calls of \<open>main\<close>, last registered first.\<close>

fun run_deferred :: "UDPConn option list \<Rightarrow> state \<Rightarrow> state" where
  "run_deferred [] s = s"
| "run_deferred (c # cs) s = run_deferred cs (emit (EvClose c) s)"

text \<open>
  A run-time panic in \<open>main\<close>: the deferred calls run, then the process exits with
  status 2.
\<close>

definition panic :: "state \<Rightarrow> state" where
  "panic s = (run_deferred (deferred s) (emit EvPanic s))\<lparr> deferred := [], status := Exited 2 \<rparr>"

subsection \<open>The two threads\<close>

definition bcast_address :: string where
  "bcast_address = ''255.255.255.255:'' @ Itoa commonPort"

definition listen_address :: string where
  "listen_address = '':'' @ Itoa commonPort"

text \<open>One statement of \<open>main\<close> (lines 23 to 92).\<close>

definition main_step :: "env \<Rightarrow> state \<Rightarrow> state" where
  "main_step env s = (case mpc s of
      L25 \<Rightarrow> (emit (EvSeed (UnixNano env)) s)\<lparr> rng_seed := UnixNano env, mpc := L26 \<rparr>
    | L26 \<Rightarrow> (let r = rand_Int env (rng_seed s)
              in (emit (EvRandInt r) s)\<lparr> v_name := ''peer-'' @ Itoa r, mpc := L27 \<rparr>)
    | L27 \<Rightarrow> (Printf ''I am %s'' [S (v_name s)] s)\<lparr> mpc := L30 \<rparr>
    | L30 \<Rightarrow> (Printf ''Resolving broadcast address..'' [] s)\<lparr> mpc := L31 \<rparr>
    | L31 \<Rightarrow> (case ResolveUDPAddr env (trace s) ''udp'' bcast_address of (a, e) \<Rightarrow>
                (emit (EvResolveUDPAddr ''udp'' bcast_address a e) s)
                  \<lparr> v_bCastAddr := a, v_err := e, mpc := L32 \<rparr>)
    | L32 \<Rightarrow> (case v_err s of
                Some e \<Rightarrow> Fatalf ''Error: Failed to resolve broadcast address: %s'' [S (Error_msg e)] s
              | None \<Rightarrow> s\<lparr> mpc := L35 \<rparr>)
    | L35 \<Rightarrow> (Printf ''Resolved %s.'' [A (v_bCastAddr s)] s)\<lparr> mpc := L38 \<rparr>
    | L38 \<Rightarrow> (emit EvGo s)\<lparr> gpc := G40, mpc := L59 \<rparr>
    | L59 \<Rightarrow> (Printf ''Resolving listen address..'' [] s)\<lparr> mpc := L60 \<rparr>
    | L60 \<Rightarrow> (case ResolveUDPAddr env (trace s) ''udp'' listen_address of (a, e) \<Rightarrow>
                (emit (EvResolveUDPAddr ''udp'' listen_address a e) s)
                  \<lparr> v_listenAddr := a, v_err := e, mpc := L61 \<rparr>)
    | L61 \<Rightarrow> (case v_err s of
                Some e \<Rightarrow> Fatalf ''Error: Failed to resolve listen address: %s'' [S (Error_msg e)] s
              | None \<Rightarrow> s\<lparr> mpc := L64 \<rparr>)
    | L64 \<Rightarrow> (Printf ''Resolved %s.'' [A (v_listenAddr s)] s)\<lparr> mpc := L67 \<rparr>
    | L67 \<Rightarrow> (Printf ''Beginning to listen..'' [] s)\<lparr> mpc := L68 \<rparr>
    | L68 \<Rightarrow> (case ListenUDP env (trace s) ''udp'' (v_listenAddr s) of (c, e) \<Rightarrow>
                (emit (EvListenUDP ''udp'' (v_listenAddr s) c e) s)
                  \<lparr> v_conn := c, v_err := e, mpc := L69 \<rparr>)
    | L69 \<Rightarrow> (case v_err s of
                Some e \<Rightarrow> Fatalf ''Error: Failed to listen: %s'' [S (Error_msg e)] s
              | None \<Rightarrow> s\<lparr> mpc := L72 \<rparr>)
    | L72 \<Rightarrow> s\<lparr> deferred := v_conn s # deferred s, mpc := L79 \<rparr>
    | L79 \<Rightarrow> s\<lparr> v_buf := replicate 1024 (CHR 0x00), mpc := L85 \<rparr>
    | L85 \<Rightarrow> (case ReadFromUDP (v_buf s) (recvfrom env (trace s) (v_conn s)) of (b, k, a, e) \<Rightarrow>
                (emit (EvReadFromUDP (v_conn s) (take k b) a e) s)
                  \<lparr> v_buf := b, v_n := k, v_addr := a, v_err := e, mpc := L86 \<rparr>)
    | L86 \<Rightarrow> (if v_n s \<le> length (v_buf s)
               then (Printf ''Received '%s' from %s'' [S (take (v_n s) (v_buf s)), A (v_addr s)] s)
                      \<lparr> mpc := L87 \<rparr>
               else panic s)
    | L87 \<Rightarrow> (case v_err s of
                Some e \<Rightarrow> (Printf ''Error: %s'' [S (Error_msg e)] s)\<lparr> mpc := L85 \<rparr>
              | None \<Rightarrow> s\<lparr> mpc := L85 \<rparr>)
    | L92 \<Rightarrow> (run_deferred (deferred s) s)\<lparr> deferred := [], status := Exited 0 \<rparr>)"

text \<open>
  One statement of the goroutine (lines 38 to 56). It reads \<open>name\<close> and \<open>bCastAddr\<close> of
  \<open>main\<close>; its \<open>conn\<close> and \<open>err\<close> are its own.
\<close>

definition go_step :: "env \<Rightarrow> state \<Rightarrow> state" where
  "go_step env s = (case gpc s of
      G_idle \<Rightarrow> s
    | G40 \<Rightarrow> (Printf ''Dialing broadcast address..'' [] s)\<lparr> gpc := G41 \<rparr>
    | G41 \<Rightarrow> (case DialUDP env (trace s) ''udp'' None (v_bCastAddr s) of (c, e) \<Rightarrow>
                (emit (EvDialUDP ''udp'' None (v_bCastAddr s) c e) s)
                  \<lparr> g_conn := c, g_err := e, gpc := G42 \<rparr>)
    | G42 \<Rightarrow> (case g_err s of
                Some e \<Rightarrow> Fatalf ''Error: Failed to dial: %s'' [S (Error_msg e)] s
              | None \<Rightarrow> s\<lparr> gpc := G47 \<rparr>)
    | G47 \<Rightarrow> (emit (EvSleep Second) s)\<lparr> gpc := G48 \<rparr>
    | G48 \<Rightarrow> (Printf ''Broadcasting..'' [] s)\<lparr> gpc := G49 \<rparr>
    | G49 \<Rightarrow> (case conn_Write env (trace s) (g_conn s) (v_name s) of (k, e) \<Rightarrow>
                (emit (EvWrite (g_conn s) (v_name s) e) s)\<lparr> g_err := e, gpc := G50 \<rparr>)
    | G50 \<Rightarrow> (case g_err s of
                Some e \<Rightarrow> (Printf ''Error: %s'' [S (Error_msg e)] s)\<lparr> gpc := G47 \<rparr>
              | None \<Rightarrow> s\<lparr> gpc := G47 \<rparr>))"

subsection \<open>Runs\<close>

datatype thread = T_main | T_go

text \<open>A process that has exited takes no step, in either thread.\<close>

definition step :: "env \<Rightarrow> thread \<Rightarrow> state \<Rightarrow> state" where
  "step env t s =
     (if status s \<noteq> Running then s
      else case t of T_main \<Rightarrow> main_step env s | T_go \<Rightarrow> go_step env s)"

fun run :: "env \<Rightarrow> thread list \<Rightarrow> state \<Rightarrow> state" where
  "run env [] s = s"
| "run env (t # ts) s = run env ts (step env t s)"

section \<open>Observations on runs\<close>

subsection \<open>Reading a trace\<close>

text \<open>Kinds of events, and whether a call failed.\<close>

fun is_resolve :: "event \<Rightarrow> bool" where
  "is_resolve (EvResolveUDPAddr net a p e) = True"
| "is_resolve _ = False"

fun resolve_failed :: "string \<Rightarrow> event \<Rightarrow> bool" where
  "resolve_failed x (EvResolveUDPAddr net a p e) = (a = x \<and> e \<noteq> None)"
| "resolve_failed x _ = False"

fun is_dial :: "event \<Rightarrow> bool" where
  "is_dial (EvDialUDP net l r c e) = True"
| "is_dial _ = False"

fun dial_ok :: "event \<Rightarrow> bool" where
  "dial_ok (EvDialUDP net l r c e) = (e = None)"
| "dial_ok _ = False"

fun dial_failed :: "event \<Rightarrow> bool" where
  "dial_failed (EvDialUDP net l r c e) = (e \<noteq> None)"
| "dial_failed _ = False"

fun is_listen :: "event \<Rightarrow> bool" where
  "is_listen (EvListenUDP net l c e) = True"
| "is_listen _ = False"

fun listen_ok :: "event \<Rightarrow> bool" where
  "listen_ok (EvListenUDP net l c e) = (e = None)"
| "listen_ok _ = False"

fun listen_failed :: "event \<Rightarrow> bool" where
  "listen_failed (EvListenUDP net l c e) = (e \<noteq> None)"
| "listen_failed _ = False"

fun is_write :: "event \<Rightarrow> bool" where
  "is_write (EvWrite c b e) = True"
| "is_write _ = False"

fun is_read :: "event \<Rightarrow> bool" where
  "is_read (EvReadFromUDP c b a e) = True"
| "is_read _ = False"

definition is_socket_op :: "event \<Rightarrow> bool" where
  "is_socket_op ev = (is_dial ev \<or> is_listen ev \<or> is_write ev \<or> is_read ev)"

fun is_close :: "event \<Rightarrow> bool" where
  "is_close (EvClose c) = True"
| "is_close _ = False"

fun is_rand :: "event \<Rightarrow> bool" where
  "is_rand (EvRandInt r) = True"
| "is_rand _ = False"

text \<open>The four \<open>log.Fatalf\<close> calls of startup (lines 33, 43, 62 and 70).\<close>

fun startup_fatal :: "event \<Rightarrow> bool" where
  "startup_fatal (EvFatalf fmt args) =
     (fmt = ''Error: Failed to resolve broadcast address: %s'' \<or>
      fmt = ''Error: Failed to dial: %s'' \<or>
      fmt = ''Error: Failed to resolve listen address: %s'' \<or>
      fmt = ''Error: Failed to listen: %s'')"
| "startup_fatal _ = False"

text \<open>The pattern \<open>peer-<digits>\<close>, and the identity a run generates.\<close>

definition is_digit :: "char \<Rightarrow> bool" where
  "is_digit c \<longleftrightarrow> c \<in> set ''0123456789''"

definition peer_pattern :: "string \<Rightarrow> bool" where
  "peer_pattern x \<longleftrightarrow> take 5 x = ''peer-'' \<and> drop 5 x \<noteq> [] \<and> list_all is_digit (drop 5 x)"

definition the_name :: "env \<Rightarrow> string" where
  "the_name env = ''peer-'' @ Itoa (rand_Int env (UnixNano env))"

text \<open>
  Addresses: every resolution is of one of the two address strings; a dial is to what
  the resolution of the broadcast address returned; a bind is to what the resolution of
  the listen address returned (\<open>tr\<close> is the whole trace).
\<close>

fun addr_ok :: "event list \<Rightarrow> event \<Rightarrow> bool" where
  "addr_ok tr (EvResolveUDPAddr net a p e) =
     (net = ''udp'' \<and> (a = ''255.255.255.255:2002'' \<or> a = '':2002''))"
| "addr_ok tr (EvDialUDP net l r c e) =
     (net = ''udp'' \<and> l = None \<and>
      EvResolveUDPAddr ''udp'' ''255.255.255.255:2002'' r None \<in> set tr)"
| "addr_ok tr (EvListenUDP net l c e) =
     (net = ''udp'' \<and> EvResolveUDPAddr ''udp'' '':2002'' l None \<in> set tr)"
| "addr_ok tr _ = True"

text \<open>A dial to the address \<open>r\<close>; a bind to the address \<open>a\<close>.\<close>

fun dial_to :: "UDPAddr option \<Rightarrow> event \<Rightarrow> bool" where
  "dial_to r (EvDialUDP net l r' c e) = (net = ''udp'' \<and> l = None \<and> r' = r)"
| "dial_to r _ = False"

fun bind_to :: "UDPAddr option \<Rightarrow> event \<Rightarrow> bool" where
  "bind_to a (EvListenUDP net l c e) = (net = ''udp'' \<and> l = a)"
| "bind_to a _ = False"

text \<open>
  The broadcaster, read off the trace by a three-state automaton: a sleep of one second
  is due, then a write of the identity \<open>nm\<close>, then a sleep again; anything else among
  sleeps and writes leads to \<open>Broken\<close>, and other events are passed over.
\<close>

datatype phase = Awake | Slept | Broken

fun bw_step :: "string \<Rightarrow> phase \<Rightarrow> event \<Rightarrow> phase" where
  "bw_step nm Awake (EvSleep d) = (if d = Second then Slept else Broken)"
| "bw_step nm Awake (EvWrite c p e) = Broken"
| "bw_step nm Slept (EvSleep d) = Broken"
| "bw_step nm Slept (EvWrite c p e) = (if p = nm then Awake else Broken)"
| "bw_step nm ph _ = ph"

definition bw_phase :: "string \<Rightarrow> event list \<Rightarrow> phase" where
  "bw_phase nm tr = foldl (bw_step nm) Awake tr"

text \<open>A write on the connection \<open>c\<close>; a dial that returned \<open>c\<close> without error.\<close>

fun write_on :: "UDPConn option \<Rightarrow> event \<Rightarrow> bool" where
  "write_on c (EvWrite c' p e) = (c' = c)"
| "write_on c _ = True"

fun dialed :: "UDPConn option \<Rightarrow> event \<Rightarrow> bool" where
  "dialed c (EvDialUDP net l r c' e) = (c' = c \<and> e = None)"
| "dialed c _ = False"

text \<open>
  The listener: the payload and sender of each read, and of each \<open>Received\<close> line,
  in the order of the trace.
\<close>

fun read_of :: "event \<Rightarrow> (bytes \<times> UDPAddr option) list" where
  "read_of (EvReadFromUDP c b a e) = [(b, a)]"
| "read_of _ = []"

fun received_of :: "event \<Rightarrow> (bytes \<times> UDPAddr option) list" where
  "received_of (EvPrintf fmt [S p, A a]) = (if fmt = ''Received '%s' from %s'' then [(p, a)] else [])"
| "received_of _ = []"

definition reads :: "event list \<Rightarrow> (bytes \<times> UDPAddr option) list" where
  "reads tr = concat (map read_of tr)"

definition received :: "event list \<Rightarrow> (bytes \<times> UDPAddr option) list" where
  "received tr = concat (map received_of tr)"

subsection \<open>Invariants\<close>

text \<open>The statements of each thread, numbered in program order.\<close>

fun mpos :: "mpc \<Rightarrow> nat" where
  "mpos L25 = 0" | "mpos L26 = 1" | "mpos L27 = 2" | "mpos L30 = 3" | "mpos L31 = 4"
| "mpos L32 = 5" | "mpos L35 = 6" | "mpos L38 = 7" | "mpos L59 = 8" | "mpos L60 = 9"
| "mpos L61 = 10" | "mpos L64 = 11" | "mpos L67 = 12" | "mpos L68 = 13" | "mpos L69 = 14"
| "mpos L72 = 15" | "mpos L79 = 16" | "mpos L85 = 17" | "mpos L86 = 18" | "mpos L87 = 19"
| "mpos L92 = 20"

fun gpos :: "gpc \<Rightarrow> nat" where
  "gpos G_idle = 0" | "gpos G40 = 1" | "gpos G41 = 2" | "gpos G42 = 3" | "gpos G47 = 4"
| "gpos G48 = 5" | "gpos G49 = 6" | "gpos G50 = 7"

text \<open>Control: where the threads can stand, and when the process can have exited.\<close>

definition ctl_inv :: "state \<Rightarrow> bool" where
  "ctl_inv s \<longleftrightarrow>
     (mpos (mpc s) \<le> 7 \<longrightarrow> gpc s = G_idle) \<and>
     (status s \<noteq> Running \<longrightarrow>
        status s = Exited 1 \<and>
        ((mpc s = L32 \<or> mpc s = L61 \<or> mpc s = L69) \<and> v_err s \<noteq> None \<or>
         gpc s = G42 \<and> g_err s \<noteq> None)) \<and>
     mpc s \<noteq> L92 \<and>
     (mpc s = L86 \<longrightarrow> v_n s \<le> 1024) \<and>
     (17 \<le> mpos (mpc s) \<longrightarrow> length (v_buf s) = 1024) \<and>
     (16 \<le> mpos (mpc s) \<longrightarrow> deferred s = [v_conn s]) \<and>
     (mpos (mpc s) < 16 \<longrightarrow> deferred s = [])"

text \<open>What \<open>main\<close> has put in the trace, by the line it stands at.\<close>

definition main_tr_inv :: "state \<Rightarrow> bool" where
  "main_tr_inv s \<longleftrightarrow>
     (mpos (mpc s) \<le> 4 \<longrightarrow> \<not> list_ex is_resolve (trace s)) \<and>
     (mpc s = L32 \<longrightarrow> (list_ex (resolve_failed bcast_address) (trace s) \<longleftrightarrow> v_err s \<noteq> None)) \<and>
     (mpos (mpc s) \<noteq> 5 \<longrightarrow> \<not> list_ex (resolve_failed bcast_address) (trace s)) \<and>
     (mpc s = L61 \<longrightarrow> (list_ex (resolve_failed listen_address) (trace s) \<longleftrightarrow> v_err s \<noteq> None)) \<and>
     (mpos (mpc s) \<noteq> 10 \<longrightarrow> \<not> list_ex (resolve_failed listen_address) (trace s)) \<and>
     (mpos (mpc s) \<le> 13 \<longrightarrow> filter is_listen (trace s) = []) \<and>
     (13 < mpos (mpc s) \<longrightarrow> length (filter is_listen (trace s)) = 1) \<and>
     (mpc s = L69 \<longrightarrow> (list_ex listen_failed (trace s) \<longleftrightarrow> v_err s \<noteq> None)) \<and>
     (mpos (mpc s) \<noteq> 14 \<longrightarrow> \<not> list_ex listen_failed (trace s)) \<and>
     (mpos (mpc s) \<le> 13 \<longrightarrow> \<not> list_ex listen_ok (trace s)) \<and>
     (mpos (mpc s) = 14 \<longrightarrow> v_err s \<noteq> None \<longrightarrow> \<not> list_ex listen_ok (trace s)) \<and>
     (mpos (mpc s) \<le> 16 \<longrightarrow> \<not> list_ex is_read (trace s)) \<and>
     \<not> list_ex is_close (trace s) \<and> EvPanic \<notin> set (trace s)"

text \<open>What the goroutine has put in the trace, by the line it stands at.\<close>

definition go_tr_inv :: "state \<Rightarrow> bool" where
  "go_tr_inv s \<longleftrightarrow>
     (gpos (gpc s) \<le> 2 \<longrightarrow> filter is_dial (trace s) = []) \<and>
     (2 < gpos (gpc s) \<longrightarrow> length (filter is_dial (trace s)) = 1) \<and>
     (gpc s = G42 \<longrightarrow> (list_ex dial_failed (trace s) \<longleftrightarrow> g_err s \<noteq> None)) \<and>
     (gpos (gpc s) \<noteq> 3 \<longrightarrow> \<not> list_ex dial_failed (trace s)) \<and>
     (gpos (gpc s) \<le> 2 \<longrightarrow> \<not> list_ex dial_ok (trace s)) \<and>
     (gpos (gpc s) = 3 \<longrightarrow> g_err s \<noteq> None \<longrightarrow> \<not> list_ex dial_ok (trace s)) \<and>
     (gpos (gpc s) \<le> 3 \<longrightarrow> \<not> list_ex is_write (trace s))"

text \<open>The identity: drawn once, as the second event, and kept.\<close>

definition name_inv :: "env \<Rightarrow> state \<Rightarrow> bool" where
  "name_inv env s \<longleftrightarrow>
     (mpos (mpc s) = 0 \<longrightarrow> trace s = []) \<and>
     (mpos (mpc s) = 1 \<longrightarrow> trace s = [EvSeed (UnixNano env)] \<and> rng_seed s = UnixNano env) \<and>
     (2 \<le> mpos (mpc s) \<longrightarrow>
        v_name s = the_name env \<and>
        filter is_rand (trace s) = [EvRandInt (rand_Int env (UnixNano env))] \<and>
        2 \<le> length (trace s) \<and>
        take 2 (trace s) = [EvSeed (UnixNano env), EvRandInt (rand_Int env (UnixNano env))])"

text \<open>The addresses in use.\<close>

definition addr_inv :: "state \<Rightarrow> bool" where
  "addr_inv s \<longleftrightarrow>
     list_all (addr_ok (trace s)) (trace s) \<and>
     (mpos (mpc s) = 5 \<longrightarrow> v_err s = None \<longrightarrow>
        EvResolveUDPAddr ''udp'' ''255.255.255.255:2002'' (v_bCastAddr s) None \<in> set (trace s)) \<and>
     (6 \<le> mpos (mpc s) \<longrightarrow>
        EvResolveUDPAddr ''udp'' ''255.255.255.255:2002'' (v_bCastAddr s) None \<in> set (trace s)) \<and>
     (mpos (mpc s) = 10 \<longrightarrow> v_err s = None \<longrightarrow>
        EvResolveUDPAddr ''udp'' '':2002'' (v_listenAddr s) None \<in> set (trace s)) \<and>
     (11 \<le> mpos (mpc s) \<longrightarrow>
        EvResolveUDPAddr ''udp'' '':2002'' (v_listenAddr s) None \<in> set (trace s))"

text \<open>The broadcaster's automaton, by the line the goroutine stands at, and its connection.\<close>

definition bw_inv :: "env \<Rightarrow> state \<Rightarrow> bool" where
  "bw_inv env s \<longleftrightarrow>
     (gpos (gpc s) \<le> 4 \<longrightarrow> bw_phase (the_name env) (trace s) = Awake) \<and>
     (gpos (gpc s) = 5 \<longrightarrow> bw_phase (the_name env) (trace s) = Slept) \<and>
     (gpos (gpc s) = 6 \<longrightarrow> bw_phase (the_name env) (trace s) = Slept) \<and>
     (gpos (gpc s) = 7 \<longrightarrow> bw_phase (the_name env) (trace s) = Awake) \<and>
     list_all (write_on (g_conn s)) (trace s) \<and>
     (gpos (gpc s) = 3 \<longrightarrow> g_err s = None \<longrightarrow> list_ex (dialed (g_conn s)) (trace s)) \<and>
     (4 \<le> gpos (gpc s) \<longrightarrow> list_ex (dialed (g_conn s)) (trace s))"

text \<open>Reads and \<open>Received\<close> lines: equal, but for the read made on line 85 and not yet logged.\<close>

definition rd_inv :: "state \<Rightarrow> bool" where
  "rd_inv s \<longleftrightarrow>
     (mpos (mpc s) = 18 \<longrightarrow> reads (trace s) = received (trace s) @ [(take (v_n s) (v_buf s), v_addr s)]) \<and>
     (mpos (mpc s) \<noteq> 18 \<longrightarrow> reads (trace s) = received (trace s))"

text \<open>An exit is the work of one of the four startup checks.\<close>

definition exit_inv :: "state \<Rightarrow> bool" where
  "exit_inv s \<longleftrightarrow> (status s \<noteq> Running \<longrightarrow> trace s \<noteq> [] \<and> startup_fatal (last (trace s)))"

definition run_inv :: "env \<Rightarrow> state \<Rightarrow> bool" where
  "run_inv env s \<longleftrightarrow>
     ctl_inv s \<and> main_tr_inv s \<and> go_tr_inv s \<and> name_inv env s \<and> addr_inv s \<and>
     bw_inv env s \<and> rd_inv s \<and> exit_inv s"

text \<open>
  Startup is over: \<open>main\<close> has bound its socket without error and the goroutine has
  dialed without error (each is at its check with no error to report, or past it).
\<close>

definition startup_done :: "state \<Rightarrow> bool" where
  "startup_done s \<longleftrightarrow>
     (mpc s = L69 \<and> v_err s = None \<or>
      mpc s = L72 \<or> mpc s = L79 \<or> mpc s = L85 \<or> mpc s = L86 \<or> mpc s = L87) \<and>
     (gpc s = G42 \<and> g_err s = None \<or>
      gpc s = G47 \<or> gpc s = G48 \<or> gpc s = G49 \<or> gpc s = G50)"

subsection \<open>Environments and schedules used as examples\<close>

text \<open>
  An environment in which every call succeeds, \<open>rand.Int\<close> returns 42 and every read
  brings the process's own broadcast back; then environments in which one call fails.
\<close>

definition addr_bcast :: UDPAddr where
  "addr_bcast = UDPAddr [255, 255, 255, 255] 2002 []"

definition addr_any :: UDPAddr where
  "addr_any = UDPAddr [] 2002 []"

definition addr_sender :: UDPAddr where
  "addr_sender = UDPAddr [192, 168, 0, 7] 40000 []"

definition env_ok :: env where
  "env_ok = \<lparr> UnixNano = 1700000000000000000, rand_Int = (\<lambda>seed. 42),
     ResolveUDPAddr = (\<lambda>tr net a. (if a = ''255.255.255.255:2002'' then Some addr_bcast else Some addr_any, None)),
     DialUDP = (\<lambda>tr net l r. (Some (UDPConn 3), None)),
     ListenUDP = (\<lambda>tr net l. (Some (UDPConn 4), None)),
     conn_Write = (\<lambda>tr c b. (length b, None)),
     recvfrom = (\<lambda>tr c. \<lparr> dg_payload = ''peer-42'', dg_from = Some addr_sender, dg_err = None \<rparr>) \<rparr>"

definition env_no_bcast :: env where
  "env_no_bcast = env_ok \<lparr> ResolveUDPAddr := (\<lambda>tr net a.
      if a = ''255.255.255.255:2002'' then (None, Some (Error ''no such host'')) else (Some addr_any, None)) \<rparr>"

definition env_no_listen :: env where
  "env_no_listen = env_ok \<lparr> ResolveUDPAddr := (\<lambda>tr net a.
      if a = '':2002'' then (None, Some (Error ''unknown port'')) else (Some addr_bcast, None)) \<rparr>"

definition env_no_dial :: env where
  "env_no_dial = env_ok \<lparr> DialUDP := (\<lambda>tr net l r. (None, Some (Error ''network is unreachable''))) \<rparr>"

definition env_no_bind :: env where
  "env_no_bind = env_ok \<lparr> ListenUDP := (\<lambda>tr net l. (None, Some (Error ''address already in use''))) \<rparr>"

definition env_write_err :: env where
  "env_write_err = env_ok \<lparr> conn_Write := (\<lambda>tr c b. (0, Some (Error ''network is unreachable''))) \<rparr>"

definition env_read_err :: env where
  "env_read_err = env_ok \<lparr> recvfrom := (\<lambda>tr c.
      \<lparr> dg_payload = ''pee'', dg_from = Some addr_sender,
        dg_err = Some (Error ''i/o timeout'') \<rparr>) \<rparr>"

text \<open>A datagram longer than the buffer; a long datagram followed by shorter ones.\<close>

definition env_big :: env where
  "env_big = env_ok \<lparr> recvfrom := (\<lambda>tr c.
      \<lparr> dg_payload = replicate 1030 (CHR ''x''), dg_from = Some addr_sender, dg_err = None \<rparr>) \<rparr>"

definition env_long_then_short :: env where
  "env_long_then_short = env_ok \<lparr> recvfrom := (\<lambda>tr c.
      \<lparr> dg_payload = (if list_ex is_read tr then ''peer-7'' else ''peer-1234567890''),
        dg_from = Some addr_sender, dg_err = None \<rparr>) \<rparr>"

text \<open>
  Schedules. \<open>upto_L32\<close>: \<open>main\<close> through the resolution of line 31.
  \<open>dial_first\<close>: \<open>main\<close> through the \<open>go\<close> statement, the goroutine through its
  dial, \<open>main\<close> through the resolution of line 60 and its check. \<open>dial_fails\<close> and
  \<open>bind_fails\<close>: up to and including the check after the dial, and up to the check after
  the bind. \<open>startup_sched\<close>: both threads past their startup checks. \<open>to_loop_head\<close>,
  \<open>to_write\<close>, \<open>after_write\<close>: the goroutine at line 47, at line 49, and after its
  first write. \<open>to_read\<close>, \<open>just_read\<close>, \<open>one_read_later\<close>: \<open>main\<close> at line 85, at
  line 86, and back at line 85 after one iteration.
\<close>

definition upto_L32 :: "thread list" where
  "upto_L32 = [T_main, T_main, T_main, T_main, T_main]"

definition dial_first :: "thread list" where
  "dial_first = [T_main, T_main, T_main, T_main, T_main, T_main, T_main, T_main,
                 T_go, T_go, T_main, T_main, T_main]"

definition dial_fails :: "thread list" where
  "dial_fails = [T_main, T_main, T_main, T_main, T_main, T_main, T_main, T_main,
                 T_main, T_main, T_go, T_go, T_go]"

definition bind_fails :: "thread list" where
  "bind_fails = [T_main, T_main, T_main, T_main, T_main, T_main, T_main, T_main,
                 T_go, T_main, T_main, T_main, T_main, T_main, T_main]"

definition startup_sched :: "thread list" where
  "startup_sched = [T_main, T_main, T_main, T_main, T_main, T_main, T_main, T_main,
                    T_go, T_go, T_go,
                    T_main, T_main, T_main, T_main, T_main, T_main, T_main]"

definition some_more :: "thread list" where
  "some_more = [T_go, T_main, T_main, T_go, T_main, T_go, T_go, T_main, T_main, T_go]"

definition to_loop_head :: "thread list" where
  "to_loop_head = [T_main, T_main, T_main, T_main, T_main, T_main, T_main, T_main,
                   T_go, T_go, T_go]"

definition to_write :: "thread list" where
  "to_write = [T_main, T_main, T_main, T_main, T_main, T_main, T_main, T_main,
               T_go, T_go, T_go, T_go, T_go]"

definition after_write :: "thread list" where
  "after_write = to_write @ [T_go]"

definition to_read :: "thread list" where
  "to_read = [T_main, T_main, T_main, T_main, T_main, T_main, T_main, T_main, T_main,
              T_main, T_main, T_main, T_main, T_main, T_main, T_main, T_main]"

definition just_read :: "thread list" where
  "just_read = to_read @ [T_main]"

definition one_read_later :: "thread list" where
  "one_read_later = to_read @ [T_main, T_main, T_main]"

text \<open>
  \<open>to_L31\<close>, \<open>to_L60\<close>, \<open>to_L68\<close>: \<open>main\<close> at the first resolution, at the second, and
  at the bind. \<open>to_G41\<close>: the goroutine at its dial. \<open>both_calls\<close>: \<open>main\<close> through its
  bind (line 68), then the goroutine through its dial (line 41).
\<close>

definition to_L31 :: "thread list" where
  "to_L31 = [T_main, T_main, T_main, T_main]"

definition to_G41 :: "thread list" where
  "to_G41 = [T_main, T_main, T_main, T_main, T_main, T_main, T_main, T_main, T_go]"

definition to_L60 :: "thread list" where
  "to_L60 = [T_main, T_main, T_main, T_main, T_main, T_main, T_main, T_main, T_main]"

definition to_L68 :: "thread list" where
  "to_L68 = [T_main, T_main, T_main, T_main, T_main, T_main, T_main, T_main, T_main,
             T_main, T_main, T_main, T_main]"

definition both_calls :: "thread list" where
  "both_calls = [T_main, T_main, T_main, T_main, T_main, T_main, T_main, T_main, T_main,
                 T_main, T_main, T_main, T_main, T_main, T_go, T_go]"

section \<open>Lemmas\<close>

subsection \<open>Runs and library facts\<close>

lemma Itoa_commonPort: "Itoa commonPort = ''2002''"
  by (simp add: Itoa_def commonPort_def digit_char_def digits10.simps)

lemma run_append: "run env (xs @ ys) s = run env ys (run env xs s)"
  by (induction xs arbitrary: s) simp_all

lemma run_invariant:
  assumes "P s" and "\<And>s t. P s \<Longrightarrow> P (step env t s)"
  shows "P (run env sched s)"
  using assms(1)
proof (induction sched arbitrary: s)
  case Nil
  then show ?case by simp
next
  case (Cons t ts)
  then show ?case by (simp add: assms(2))
qed

lemma addresses_differ: "bcast_address \<noteq> listen_address" "listen_address \<noteq> bcast_address"
  by (simp_all add: bcast_address_def listen_address_def)

lemmas stmt_defs = emit_def Printf_def Fatalf_def panic_def ReadFromUDP_def Let_def

lemma run_deferred_eq: "run_deferred cs s = s\<lparr> trace := trace s @ map EvClose cs \<rparr>"
  by (induction cs arbitrary: s) (simp_all add: emit_def)

subsection \<open>Control\<close>

text \<open>Each invariant holds initially and is kept by a step of \<open>main\<close> and by a step of the
  goroutine, checked statement by statement.\<close>

lemma ctl_inv_init: "ctl_inv init"
  by (simp add: ctl_inv_def init_def)

lemma ctl_inv_main: "ctl_inv s \<Longrightarrow> status s = Running \<Longrightarrow> ctl_inv (main_step env s)"
  by (cases "mpc s")
     (simp_all add: ctl_inv_def main_step_def stmt_defs split: prod.splits option.splits)

lemma ctl_inv_go: "ctl_inv s \<Longrightarrow> status s = Running \<Longrightarrow> ctl_inv (go_step env s)"
  by (cases "gpc s")
     (simp_all add: ctl_inv_def go_step_def stmt_defs split: prod.splits option.splits)

lemma ctl_inv_step: "ctl_inv s \<Longrightarrow> ctl_inv (step env t s)"
  by (cases t) (simp_all add: step_def ctl_inv_main ctl_inv_go)

subsection \<open>The trace, by thread\<close>

lemma main_tr_inv_init: "main_tr_inv init"
  by (simp add: main_tr_inv_def init_def)

lemma main_tr_inv_main:
  "main_tr_inv s \<Longrightarrow> ctl_inv s \<Longrightarrow> status s = Running \<Longrightarrow> main_tr_inv (main_step env s)"
  by (cases "mpc s")
     (simp_all add: main_tr_inv_def ctl_inv_def main_step_def stmt_defs addresses_differ
        split: prod.splits option.splits)

lemma main_tr_inv_go:
  "main_tr_inv s \<Longrightarrow> status s = Running \<Longrightarrow> main_tr_inv (go_step env s)"
  by (cases "gpc s")
     (simp_all add: main_tr_inv_def go_step_def stmt_defs split: prod.splits option.splits)

lemma main_tr_inv_step: "main_tr_inv s \<Longrightarrow> ctl_inv s \<Longrightarrow> main_tr_inv (step env t s)"
  by (cases t) (simp_all add: step_def main_tr_inv_main main_tr_inv_go)

lemma go_tr_inv_init: "go_tr_inv init"
  by (simp add: go_tr_inv_def init_def)

lemma go_tr_inv_main:
  "go_tr_inv s \<Longrightarrow> ctl_inv s \<Longrightarrow> status s = Running \<Longrightarrow> go_tr_inv (main_step env s)"
  by (cases "mpc s")
     (simp_all add: go_tr_inv_def ctl_inv_def main_step_def stmt_defs
        split: prod.splits option.splits)

lemma go_tr_inv_go: "go_tr_inv s \<Longrightarrow> status s = Running \<Longrightarrow> go_tr_inv (go_step env s)"
  by (cases "gpc s")
     (simp_all add: go_tr_inv_def go_step_def stmt_defs split: prod.splits option.splits)

lemma go_tr_inv_step: "go_tr_inv s \<Longrightarrow> ctl_inv s \<Longrightarrow> go_tr_inv (step env t s)"
  by (cases t) (simp_all add: step_def go_tr_inv_main go_tr_inv_go)

lemmas exec_defs = step_def main_step_def go_step_def stmt_defs init_def
  bcast_address_def listen_address_def Itoa_commonPort

subsection \<open>Exit and startup\<close>

lemma run_exited: "status s \<noteq> Running \<Longrightarrow> run env later s = s"
  by (induction later) (simp_all add: step_def)

lemma startup_done_running:
  assumes "startup_done s" and "ctl_inv s"
  shows "status s = Running"
proof (rule ccontr)
  assume "status s \<noteq> Running"
  with assms(2) have
    "(mpc s = L32 \<or> mpc s = L61 \<or> mpc s = L69) \<and> v_err s \<noteq> None \<or>
     gpc s = G42 \<and> g_err s \<noteq> None"
    by (simp add: ctl_inv_def)
  then show False
  proof
    assume "(mpc s = L32 \<or> mpc s = L61 \<or> mpc s = L69) \<and> v_err s \<noteq> None"
    with assms(1) show False
      by (cases "mpc s") (simp_all add: startup_done_def)
  next
    assume "gpc s = G42 \<and> g_err s \<noteq> None"
    with assms(1) show False
      by (cases "gpc s") (simp_all add: startup_done_def)
  qed
qed

lemma startup_events_done:
  assumes "ctl_inv s" and "main_tr_inv s" and "go_tr_inv s"
    and "list_ex dial_ok (trace s)" and "list_ex listen_ok (trace s)"
  shows "startup_done s"
proof -
  from assms(1,2,5) have m: "mpc s = L69 \<and> v_err s = None \<or>
      mpc s = L72 \<or> mpc s = L79 \<or> mpc s = L85 \<or> mpc s = L86 \<or> mpc s = L87"
    by (cases "mpc s") (auto simp add: main_tr_inv_def ctl_inv_def)
  from assms(3,4) have g: "gpc s = G42 \<and> g_err s = None \<or>
      gpc s = G47 \<or> gpc s = G48 \<or> gpc s = G49 \<or> gpc s = G50"
    by (cases "gpc s") (auto simp add: go_tr_inv_def)
  from m g show ?thesis
    by (simp add: startup_done_def)
qed

lemma startup_done_main:
  "startup_done s \<Longrightarrow> ctl_inv s \<Longrightarrow> startup_done (main_step env s)"
  by (cases "mpc s")
     (simp_all add: startup_done_def ctl_inv_def main_step_def stmt_defs
        split: prod.splits option.splits)

lemma startup_done_go: "startup_done s \<Longrightarrow> startup_done (go_step env s)"
  by (cases "gpc s")
     (simp_all add: startup_done_def go_step_def stmt_defs split: prod.splits option.splits)

lemma startup_done_step: "startup_done s \<Longrightarrow> ctl_inv s \<Longrightarrow> startup_done (step env t s)"
  by (cases t) (simp_all add: step_def startup_done_main startup_done_go)

subsection \<open>Addresses and the identity\<close>

lemma bcast_address_eq: "bcast_address = ''255.255.255.255:2002''"
  by (simp add: bcast_address_def Itoa_commonPort)

lemma listen_address_eq: "listen_address = '':2002''"
  by (simp add: listen_address_def Itoa_commonPort)

lemma digit_char_is_digit: "d < 10 \<Longrightarrow> is_digit (digit_char d)"
  unfolding is_digit_def digit_char_def by (rule nth_mem) simp

lemma digits10_digits: "digits10 k \<noteq> [] \<and> list_all is_digit (digits10 k)"
proof (induction k rule: digits10.induct)
  case (1 k)
  show ?case
  proof (cases "k < 10")
    case True
    then show ?thesis
      by (subst (1 2) digits10.simps) (simp add: digit_char_is_digit)
  next
    case False
    with 1 have "list_all is_digit (digits10 (k div 10))" by simp
    with False show ?thesis
      by (subst (1 2) digits10.simps) (simp add: digit_char_is_digit)
  qed
qed

lemma peer_pattern_name: "0 \<le> r \<Longrightarrow> peer_pattern (''peer-'' @ Itoa r)"
  by (simp add: peer_pattern_def Itoa_def digits10_digits)

lemma peer_pattern_the_name: "0 \<le> rand_Int env (UnixNano env) \<Longrightarrow> peer_pattern (the_name env)"
  unfolding the_name_def by (rule peer_pattern_name)

lemma name_inv_init: "name_inv env init"
  by (simp add: name_inv_def init_def)

lemma name_inv_main: "name_inv env s \<Longrightarrow> status s = Running \<Longrightarrow> name_inv env (main_step env s)"
  by (cases "mpc s")
     (simp_all add: name_inv_def the_name_def main_step_def stmt_defs run_deferred_eq
        split: prod.splits option.splits)

lemma name_inv_go: "name_inv env s \<Longrightarrow> ctl_inv s \<Longrightarrow> status s = Running \<Longrightarrow> name_inv env (go_step env s)"
  by (cases "gpc s")
     (simp_all add: name_inv_def ctl_inv_def go_step_def stmt_defs split: prod.splits option.splits)

lemma name_inv_step: "name_inv env s \<Longrightarrow> ctl_inv s \<Longrightarrow> name_inv env (step env t s)"
  by (cases t) (simp_all add: step_def name_inv_main name_inv_go)

lemma addr_ok_mono: "addr_ok tr x \<Longrightarrow> addr_ok (tr @ ys) x"
  by (cases x) simp_all

lemma addr_ok_snoc: "list_all (addr_ok tr) xs \<Longrightarrow> list_all (addr_ok (tr @ ys)) xs"
  by (simp add: list_all_iff addr_ok_mono)

lemma addr_inv_init: "addr_inv init"
  by (simp add: addr_inv_def init_def)

lemma addr_inv_main: "addr_inv s \<Longrightarrow> ctl_inv s \<Longrightarrow> status s = Running \<Longrightarrow> addr_inv (main_step env s)"
  by (cases "mpc s")
     (simp_all add: addr_inv_def ctl_inv_def main_step_def stmt_defs addr_ok_snoc
        bcast_address_eq listen_address_eq split: prod.splits option.splits)

lemma addr_inv_go: "addr_inv s \<Longrightarrow> ctl_inv s \<Longrightarrow> status s = Running \<Longrightarrow> addr_inv (go_step env s)"
  by (cases "gpc s")
     (simp_all add: addr_inv_def ctl_inv_def go_step_def stmt_defs addr_ok_snoc
        split: prod.splits option.splits)

lemma addr_inv_step: "addr_inv s \<Longrightarrow> ctl_inv s \<Longrightarrow> addr_inv (step env t s)"
  by (cases t) (simp_all add: step_def addr_inv_main addr_inv_go)

subsection \<open>The broadcaster and the listener\<close>

lemma write_on_any: "\<not> list_ex is_write tr \<Longrightarrow> list_all (write_on c) tr"
proof (induction tr)
  case Nil
  show ?case by simp
next
  case (Cons x xs)
  then show ?case by (cases x) simp_all
qed

lemma bw_inv_init: "bw_inv env init"
  by (simp add: bw_inv_def bw_phase_def init_def)

lemma bw_inv_main:
  "bw_inv env s \<Longrightarrow> ctl_inv s \<Longrightarrow> status s = Running \<Longrightarrow> bw_inv env (main_step env s)"
  by (cases "mpc s")
     (simp_all add: bw_inv_def bw_phase_def ctl_inv_def main_step_def stmt_defs
        split: prod.splits option.splits)

lemma bw_inv_go:
  "bw_inv env s \<Longrightarrow> ctl_inv s \<Longrightarrow> name_inv env s \<Longrightarrow> go_tr_inv s \<Longrightarrow> status s = Running
   \<Longrightarrow> bw_inv env (go_step env s)"
  by (cases "gpc s")
     (simp_all add: bw_inv_def bw_phase_def ctl_inv_def name_inv_def go_tr_inv_def go_step_def
        stmt_defs write_on_any split: prod.splits option.splits)

lemma bw_inv_step:
  "bw_inv env s \<Longrightarrow> ctl_inv s \<Longrightarrow> name_inv env s \<Longrightarrow> go_tr_inv s \<Longrightarrow> bw_inv env (step env t s)"
  by (cases t) (simp_all add: step_def bw_inv_main bw_inv_go)

lemma take_min_length: "take (min (length xs) k) xs = take k xs"
  by (cases "length xs \<le> k") (simp_all add: min_def)

lemma rd_inv_init: "rd_inv init"
  by (simp add: rd_inv_def reads_def received_def init_def)

lemma rd_inv_main: "rd_inv s \<Longrightarrow> ctl_inv s \<Longrightarrow> status s = Running \<Longrightarrow> rd_inv (main_step env s)"
  by (cases "mpc s")
     (simp_all add: rd_inv_def reads_def received_def ctl_inv_def main_step_def stmt_defs
        split: prod.splits option.splits)

lemma rd_inv_go: "rd_inv s \<Longrightarrow> status s = Running \<Longrightarrow> rd_inv (go_step env s)"
  by (cases "gpc s")
     (simp_all add: rd_inv_def reads_def received_def go_step_def stmt_defs
        split: prod.splits option.splits)

lemma rd_inv_step: "rd_inv s \<Longrightarrow> ctl_inv s \<Longrightarrow> rd_inv (step env t s)"
  by (cases t) (simp_all add: step_def rd_inv_main rd_inv_go)

subsection \<open>Exits, and all invariants together\<close>

lemma exit_inv_init: "exit_inv init"
  by (simp add: exit_inv_def init_def)

lemma exit_inv_main: "ctl_inv s \<Longrightarrow> status s = Running \<Longrightarrow> exit_inv (main_step env s)"
  by (cases "mpc s")
     (simp_all add: exit_inv_def ctl_inv_def main_step_def stmt_defs
        split: prod.splits option.splits)

lemma exit_inv_go: "status s = Running \<Longrightarrow> exit_inv (go_step env s)"
  by (cases "gpc s")
     (simp_all add: exit_inv_def go_step_def stmt_defs split: prod.splits option.splits)

lemma exit_inv_step: "exit_inv s \<Longrightarrow> ctl_inv s \<Longrightarrow> exit_inv (step env t s)"
  by (cases t) (simp_all add: step_def exit_inv_main exit_inv_go)

lemma run_inv_run: "run_inv env (run env sched init)"
  by (rule run_invariant)
     (simp_all add: run_inv_def ctl_inv_init main_tr_inv_init go_tr_inv_init name_inv_init
        addr_inv_init bw_inv_init rd_inv_init exit_inv_init
        ctl_inv_step main_tr_inv_step go_tr_inv_step name_inv_step addr_inv_step
        bw_inv_step rd_inv_step exit_inv_step)

lemma inv_parts:
  assumes "s = run env sched init"
  shows "ctl_inv s" "main_tr_inv s" "go_tr_inv s" "name_inv env s" "addr_inv s"
    "bw_inv env s" "rd_inv s" "exit_inv s"
  using run_inv_run [of env sched] assms by (simp_all add: run_inv_def)

lemma buf_len: "ctl_inv s \<Longrightarrow> mpc s = L85 \<Longrightarrow> length (v_buf s) = 1024"
  by (simp add: ctl_inv_def)

subsection \<open>The dial and the bind are made\<close>

text \<open>
  Where both resolutions succeed, the schedule \<open>both_calls\<close> brings \<open>main\<close> to its bind
  and the goroutine to its dial, whatever else the environment answers.
\<close>

lemma both_calls_made:
  assumes "\<And>tr net a. snd (ResolveUDPAddr env tr net a) = None"
  shows "list_ex is_dial (trace (run env both_calls init)) \<and>
         list_ex is_listen (trace (run env both_calls init))"
  by (simp add: exec_defs both_calls_def case_prod_beta assms)

lemma dial_target:
  assumes "list_all (addr_ok tr) tr" and "list_ex is_dial tr"
  shows "\<exists>b. EvResolveUDPAddr ''udp'' ''255.255.255.255:2002'' b None \<in> set tr \<and>
             list_ex (dial_to b) tr"
proof -
  from assms(2) obtain x where x: "x \<in> set tr" "is_dial x"
    by (auto simp add: list_ex_iff)
  from x(2) obtain net l r c e where e: "x = EvDialUDP net l r c e"
    by (cases x) simp_all
  from assms(1) x(1) have "addr_ok tr x"
    by (simp add: list_all_iff)
  with e have "EvResolveUDPAddr ''udp'' ''255.255.255.255:2002'' r None \<in> set tr" "dial_to r x"
    by simp_all
  with x(1) show ?thesis
    by (auto simp add: list_ex_iff)
qed

lemma bind_target:
  assumes "list_all (addr_ok tr) tr" and "list_ex is_listen tr"
  shows "\<exists>a. EvResolveUDPAddr ''udp'' '':2002'' a None \<in> set tr \<and> list_ex (bind_to a) tr"
proof -
  from assms(2) obtain x where x: "x \<in> set tr" "is_listen x"
    by (auto simp add: list_ex_iff)
  from x(2) obtain net l c e where e: "x = EvListenUDP net l c e"
    by (cases x) simp_all
  from assms(1) x(1) have "addr_ok tr x"
    by (simp add: list_all_iff)
  with e have "EvResolveUDPAddr ''udp'' '':2002'' l None \<in> set tr" "bind_to l x"
    by simp_all
  with x(1) show ?thesis
    by (auto simp add: list_ex_iff)
qed

subsection \<open>Evaluating the examples\<close>

lemmas env_defs = env_ok_def env_write_err_def env_read_err_def env_big_def
  env_long_then_short_def env_no_dial_def env_no_bind_def env_no_bcast_def env_no_listen_def

lemma Itoa_42: "Itoa 42 = ''42''"
  by (simp add: Itoa_def digits10.simps digit_char_def)

section \<open>The claims\<close>

subsection \<open>C1: a resolution failure and the socket operations\<close>

text \<open>
  C1 says that when the resolution of the broadcast address or of the listen address
  fails, the process ends and no socket operation (dial, bind, write, read) has been
  attempted. For the broadcast address this holds. For the listen address it does not:
  the \<open>go\<close> statement of line 38 comes before the resolution of line 60, so the goroutine
  may already have dialed. The run \<open>dial_first\<close> below is such a run.
\<close>

theorem dial_before_listen_resolution:
  "list_ex (resolve_failed listen_address) (trace (run env_no_listen dial_first init)) \<and>
   status (run env_no_listen dial_first init) = Exited 1 \<and>
   list_ex is_socket_op (trace (run env_no_listen dial_first init))"
  by (simp add: exec_defs env_no_listen_def env_ok_def dial_first_def is_socket_op_def)

text \<open>
  C1, as the code has it. In every run: once the resolution of the broadcast address has
  failed, no socket operation has been attempted, the goroutine has not been started, and
  the next step of \<open>main\<close> leaves the process exited with status 1; once the
  resolution of the listen address has failed, neither the bind nor a read has been
  attempted, and the next step of \<open>main\<close> leaves the process exited with status 1.
\<close>

theorem resolve_failure_stops_before_sockets:
  assumes "s = run env sched init"
  shows "(list_ex (resolve_failed bcast_address) (trace s) \<longrightarrow>
            \<not> list_ex is_socket_op (trace s) \<and> gpc s = G_idle \<and>
            status (step env T_main s) = Exited 1) \<and>
         (list_ex (resolve_failed listen_address) (trace s) \<longrightarrow>
            \<not> list_ex is_listen (trace s) \<and> \<not> list_ex is_read (trace s) \<and>
            status (step env T_main s) = Exited 1)"
proof -
  have inv: "ctl_inv s" "main_tr_inv s" "go_tr_inv s"
    using assms by (rule inv_parts)+
  have a: "\<not> list_ex is_socket_op (trace s) \<and> gpc s = G_idle \<and> status (step env T_main s) = Exited 1"
    if f: "list_ex (resolve_failed bcast_address) (trace s)"
  proof -
    from f inv(2) have pc: "mpc s = L32" and e: "v_err s \<noteq> None"
      by (cases "mpc s"; simp add: main_tr_inv_def)+
    from pc inv(1) have idle: "gpc s = G_idle"
      by (simp add: ctl_inv_def)
    from pc idle inv(2,3) have "\<not> list_ex is_socket_op (trace s)"
      by (simp add: main_tr_inv_def go_tr_inv_def is_socket_op_def list_ex_iff filter_empty_conv)
    moreover from pc e inv(1) have "status (step env T_main s) = Exited 1"
      by (cases "status s = Running") (auto simp add: step_def main_step_def Fatalf_def emit_def ctl_inv_def)
    ultimately show ?thesis using idle by simp
  qed
  have b: "\<not> list_ex is_listen (trace s) \<and> \<not> list_ex is_read (trace s) \<and> status (step env T_main s) = Exited 1"
    if f: "list_ex (resolve_failed listen_address) (trace s)"
  proof -
    from f inv(2) have pc: "mpc s = L61" and e: "v_err s \<noteq> None"
      by (cases "mpc s"; simp add: main_tr_inv_def)+
    from pc inv(2) have "\<not> list_ex is_listen (trace s) \<and> \<not> list_ex is_read (trace s)"
      by (simp add: main_tr_inv_def list_ex_iff filter_empty_conv)
    moreover from pc e inv(1) have "status (step env T_main s) = Exited 1"
      by (cases "status s = Running") (auto simp add: step_def main_step_def Fatalf_def emit_def ctl_inv_def)
    ultimately show ?thesis by simp
  qed
  from a b show ?thesis by blast
qed

theorem resolve_failure_witness:
  "list_ex (resolve_failed bcast_address) (trace (run env_no_bcast upto_L32 init)) \<and>
   \<not> list_ex is_socket_op (trace (run env_no_bcast upto_L32 init)) \<and>
   gpc (run env_no_bcast upto_L32 init) = G_idle \<and>
   status (step env_no_bcast T_main (run env_no_bcast upto_L32 init)) = Exited 1 \<and>
   list_ex (resolve_failed listen_address) (trace (run env_no_listen dial_first init)) \<and>
   \<not> list_ex is_listen (trace (run env_no_listen dial_first init)) \<and>
   \<not> list_ex is_read (trace (run env_no_listen dial_first init)) \<and>
   status (step env_no_listen T_main (run env_no_listen dial_first init)) = Exited 1"
proof -
  have h1: "list_ex (resolve_failed bcast_address) (trace (run env_no_bcast upto_L32 init))"
    by (simp add: exec_defs env_no_bcast_def env_ok_def upto_L32_def)
  have h2: "list_ex (resolve_failed listen_address) (trace (run env_no_listen dial_first init))"
    by (simp add: exec_defs env_no_listen_def env_ok_def dial_first_def)
  from h1 h2
    resolve_failure_stops_before_sockets [OF refl, of env_no_bcast upto_L32]
    resolve_failure_stops_before_sockets [OF refl, of env_no_listen dial_first]
  show ?thesis by blast
qed

subsection \<open>C2: errors of the steady state are logged and the loops go on\<close>

text \<open>
  C2: in every run, when the write of line 49 returns an error \<open>e\<close>, the goroutine's next
  two steps change nothing but this: the write and the line \<open>Error: e\<close> are appended to the
  trace, and the goroutine stands at the head of its loop again (line 47). When the read of
  line 85 returns an error \<open>e'\<close>, after the next three steps of \<open>main\<close> the process is
  still running, \<open>main\<close> stands at the head of its loop again (line 85), the goroutine is
  where it was, and the last line logged is \<open>Error: e'\<close>. And a process that has exited
  did so in one of the four startup checks (lines 33, 43, 62, 70): its last event is that
  \<open>log.Fatalf\<close>.
\<close>

theorem steady_state_errors_logged:
  assumes "s = run env sched init"
  shows "(status s = Running \<and> gpc s = G49 \<and>
            snd (conn_Write env (trace s) (g_conn s) (v_name s)) = Some e \<longrightarrow>
          run env [T_go, T_go] s =
            s\<lparr> trace := trace s @ [EvWrite (g_conn s) (v_name s) (Some e),
                                     EvPrintf ''Error: %s'' [S (Error_msg e)]],
               gpc := G47, g_err := Some e \<rparr>) \<and>
         (status s = Running \<and> mpc s = L85 \<and>
            dg_err (recvfrom env (trace s) (v_conn s)) = Some e' \<longrightarrow>
          status (run env [T_main, T_main, T_main] s) = Running \<and>
          mpc (run env [T_main, T_main, T_main] s) = L85 \<and>
          gpc (run env [T_main, T_main, T_main] s) = gpc s \<and>
          last (trace (run env [T_main, T_main, T_main] s)) = EvPrintf ''Error: %s'' [S (Error_msg e')]) \<and>
         (status s \<noteq> Running \<longrightarrow> startup_fatal (last (trace s)))"
proof -
  have x: "exit_inv s"
    using assms by (rule inv_parts)
  have w: "run env [T_go, T_go] s =
            s\<lparr> trace := trace s @ [EvWrite (g_conn s) (v_name s) (Some e),
                                     EvPrintf ''Error: %s'' [S (Error_msg e)]],
               gpc := G47, g_err := Some e \<rparr>"
    if "status s = Running" "gpc s = G49"
       "snd (conn_Write env (trace s) (g_conn s) (v_name s)) = Some e"
    using that by (simp add: step_def go_step_def stmt_defs case_prod_beta)
  have r: "status (run env [T_main, T_main, T_main] s) = Running \<and>
          mpc (run env [T_main, T_main, T_main] s) = L85 \<and>
          gpc (run env [T_main, T_main, T_main] s) = gpc s \<and>
          last (trace (run env [T_main, T_main, T_main] s)) = EvPrintf ''Error: %s'' [S (Error_msg e')]"
    if "status s = Running" "mpc s = L85"
       "dg_err (recvfrom env (trace s) (v_conn s)) = Some e'"
    using that by (simp add: step_def main_step_def stmt_defs)
  from x have f: "startup_fatal (last (trace s))" if "status s \<noteq> Running"
    using that by (simp add: exit_inv_def)
  from w r f show ?thesis by blast
qed

theorem steady_state_errors_witness:
  "status (run env_write_err to_write init) = Running \<and>
   gpc (run env_write_err to_write init) = G49 \<and>
   snd (conn_Write env_write_err (trace (run env_write_err to_write init))
          (g_conn (run env_write_err to_write init))
          (v_name (run env_write_err to_write init))) = Some (Error ''network is unreachable'') \<and>
   status (run env_write_err [T_go, T_go] (run env_write_err to_write init)) = Running \<and>
   gpc (run env_write_err [T_go, T_go] (run env_write_err to_write init)) = G47 \<and>
   status (run env_read_err to_read init) = Running \<and>
   mpc (run env_read_err to_read init) = L85 \<and>
   dg_err (recvfrom env_read_err (trace (run env_read_err to_read init))
             (v_conn (run env_read_err to_read init))) = Some (Error ''i/o timeout'') \<and>
   status (run env_read_err [T_main, T_main, T_main] (run env_read_err to_read init)) = Running \<and>
   mpc (run env_read_err [T_main, T_main, T_main] (run env_read_err to_read init)) = L85 \<and>
   last (trace (run env_read_err [T_main, T_main, T_main] (run env_read_err to_read init)))
     = EvPrintf ''Error: %s'' [S ''i/o timeout''] \<and>
   status (run env_no_dial dial_fails init) \<noteq> Running \<and>
   startup_fatal (last (trace (run env_no_dial dial_fails init)))"
proof -
  have w: "status (run env_write_err to_write init) = Running \<and>
      gpc (run env_write_err to_write init) = G49 \<and>
      snd (conn_Write env_write_err (trace (run env_write_err to_write init))
          (g_conn (run env_write_err to_write init))
          (v_name (run env_write_err to_write init))) = Some (Error ''network is unreachable'')"
    by (simp add: exec_defs env_defs to_write_def)
  have r: "status (run env_read_err to_read init) = Running \<and>
      mpc (run env_read_err to_read init) = L85 \<and>
      dg_err (recvfrom env_read_err (trace (run env_read_err to_read init))
             (v_conn (run env_read_err to_read init))) = Some (Error ''i/o timeout'')"
    by (simp add: exec_defs env_defs to_read_def)
  have x: "status (run env_no_dial dial_fails init) \<noteq> Running"
    by (simp add: exec_defs env_defs dial_fails_def)
  note t1 = steady_state_errors_logged [OF refl, of env_write_err to_write
      "Error ''network is unreachable''"]
  note t2 = steady_state_errors_logged [OF refl, of env_read_err to_read _
      "Error ''i/o timeout''"]
  note t3 = steady_state_errors_logged [OF refl, of env_no_dial dial_fails]
  from w t1 have "run env_write_err [T_go, T_go] (run env_write_err to_write init) =
      (run env_write_err to_write init)
        \<lparr> trace := trace (run env_write_err to_write init) @
            [EvWrite (g_conn (run env_write_err to_write init))
               (v_name (run env_write_err to_write init)) (Some (Error ''network is unreachable'')),
             EvPrintf ''Error: %s'' [S (Error_msg (Error ''network is unreachable''))]],
          gpc := G47, g_err := Some (Error ''network is unreachable'') \<rparr>"
    by blast
  with w have w': "status (run env_write_err [T_go, T_go] (run env_write_err to_write init)) = Running \<and>
      gpc (run env_write_err [T_go, T_go] (run env_write_err to_write init)) = G47"
    by simp
  from r t2 have r': "status (run env_read_err [T_main, T_main, T_main] (run env_read_err to_read init)) = Running \<and>
      mpc (run env_read_err [T_main, T_main, T_main] (run env_read_err to_read init)) = L85 \<and>
      last (trace (run env_read_err [T_main, T_main, T_main] (run env_read_err to_read init)))
        = EvPrintf ''Error: %s'' [S ''i/o timeout'']"
    by simp
  from x t3 have x': "startup_fatal (last (trace (run env_no_dial dial_fails init)))"
    by blast
  from w w' r r' x x' show ?thesis by blast
qed

subsection \<open>C3: the identity\<close>

text \<open>
  C3: \<open>rand.Int\<close> returns a non-negative number (its documented contract, the hypothesis
  here). Then in every run: before line 26 has run, no random number has been drawn; from
  then on exactly one has, the draw is the second event of the run (right after the
  seeding), and \<open>name\<close> is \<open>peer-\<close> followed by that number in decimal, which matches
  \<open>peer-<digits>\<close>, and it stays so in every later state.
\<close>

theorem identity_generated_once:
  assumes "0 \<le> rand_Int env (UnixNano env)" and "s = run env sched init"
  shows "(mpc s = L25 \<or> mpc s = L26 \<longrightarrow> filter is_rand (trace s) = []) \<and>
         (mpc s \<noteq> L25 \<and> mpc s \<noteq> L26 \<longrightarrow>
            filter is_rand (trace s) = [EvRandInt (rand_Int env (UnixNano env))] \<and>
            take 2 (trace s) = [EvSeed (UnixNano env), EvRandInt (rand_Int env (UnixNano env))] \<and>
            v_name s = ''peer-'' @ Itoa (rand_Int env (UnixNano env)) \<and>
            peer_pattern (v_name s))"
proof -
  have n: "name_inv env s"
    using assms(2) by (rule inv_parts)
  have early: "filter is_rand (trace s) = []" if "mpc s = L25 \<or> mpc s = L26"
    using that n by (auto simp add: name_inv_def)
  have late: "filter is_rand (trace s) = [EvRandInt (rand_Int env (UnixNano env))] \<and>
      take 2 (trace s) = [EvSeed (UnixNano env), EvRandInt (rand_Int env (UnixNano env))] \<and>
      v_name s = ''peer-'' @ Itoa (rand_Int env (UnixNano env)) \<and> peer_pattern (v_name s)"
    if "mpc s \<noteq> L25 \<and> mpc s \<noteq> L26"
  proof -
    from that have "2 \<le> mpos (mpc s)"
      by (cases "mpc s") simp_all
    with n have *: "v_name s = the_name env"
      "filter is_rand (trace s) = [EvRandInt (rand_Int env (UnixNano env))]"
      "take 2 (trace s) = [EvSeed (UnixNano env), EvRandInt (rand_Int env (UnixNano env))]"
      by (simp_all add: name_inv_def)
    from *(1) assms(1) have "peer_pattern (v_name s)"
      by (simp add: peer_pattern_the_name)
    with * show ?thesis by (simp add: the_name_def)
  qed
  from early late show ?thesis by blast
qed

theorem identity_witness:
  "0 \<le> rand_Int env_ok (UnixNano env_ok) \<and>
   mpc (run env_ok [] init) = L25 \<and>
   filter is_rand (trace (run env_ok [] init)) = [] \<and>
   mpc (run env_ok to_read init) \<noteq> L25 \<and> mpc (run env_ok to_read init) \<noteq> L26 \<and>
   filter is_rand (trace (run env_ok to_read init)) = [EvRandInt 42] \<and>
   take 2 (trace (run env_ok to_read init)) = [EvSeed 1700000000000000000, EvRandInt 42] \<and>
   v_name (run env_ok to_read init) = ''peer-42'' \<and>
   peer_pattern (v_name (run env_ok to_read init))"
proof -
  have h0: "0 \<le> rand_Int env_ok (UnixNano env_ok)"
    by (simp add: env_ok_def)
  have e: "\<And>k. rand_Int env_ok k = 42" "UnixNano env_ok = 1700000000000000000"
    by (simp_all add: env_ok_def)
  have h1: "mpc (run env_ok [] init) = L25"
    by (simp add: init_def)
  have h2: "mpc (run env_ok to_read init) \<noteq> L25 \<and> mpc (run env_ok to_read init) \<noteq> L26"
    by (simp add: exec_defs env_defs to_read_def)
  from h1 identity_generated_once [OF h0 refl, of "[]"]
  have c1: "filter is_rand (trace (run env_ok [] init)) = []"
    by blast
  from h2 identity_generated_once [OF h0 refl, of to_read]
  have c2: "filter is_rand (trace (run env_ok to_read init)) =
              [EvRandInt (rand_Int env_ok (UnixNano env_ok))] \<and>
            take 2 (trace (run env_ok to_read init)) =
              [EvSeed (UnixNano env_ok), EvRandInt (rand_Int env_ok (UnixNano env_ok))] \<and>
            v_name (run env_ok to_read init) = ''peer-'' @ Itoa (rand_Int env_ok (UnixNano env_ok)) \<and>
            peer_pattern (v_name (run env_ok to_read init))"
    by blast
  from c2 have c3: "filter is_rand (trace (run env_ok to_read init)) = [EvRandInt 42] \<and>
      take 2 (trace (run env_ok to_read init)) = [EvSeed 1700000000000000000, EvRandInt 42] \<and>
      v_name (run env_ok to_read init) = ''peer-42''"
    by (simp add: e Itoa_42)
  from c2 have c4: "peer_pattern (v_name (run env_ok to_read init))"
    by blast
  from h0 h1 h2 c1 c3 c4 show ?thesis
    by blast
qed

subsection \<open>C4: each iteration of the broadcaster sleeps, then writes the identity\<close>

text \<open>
  C4: in every run, read from its start, sleeps and writes alternate, beginning with a
  sleep; every sleep is of one second; every write carries exactly the identity generated
  on line 26 (\<open>bw_phase\<close> never reaches \<open>Broken\<close>). Every write is on the goroutine's
  \<open>conn\<close>, which is the connection a successful dial returned. And from the head of the
  loop (line 47) the goroutine's next three steps append a sleep of one second, the line
  \<open>Broadcasting..\<close> and a write of the identity, in this order.
\<close>

theorem broadcast_sleeps_then_writes_name:
  assumes "s = run env sched init"
  shows "bw_phase (the_name env) (trace s) \<noteq> Broken \<and>
         list_all (write_on (g_conn s)) (trace s) \<and>
         (list_ex is_write (trace s) \<longrightarrow> list_ex (dialed (g_conn s)) (trace s)) \<and>
         (status s = Running \<and> gpc s = G47 \<longrightarrow>
            trace (run env [T_go, T_go, T_go] s) =
              trace s @ [EvSleep Second, EvPrintf ''Broadcasting..'' [],
                         EvWrite (g_conn s) (the_name env)
                           (snd (conn_Write env
                                  (trace s @ [EvSleep Second, EvPrintf ''Broadcasting..'' []])
                                  (g_conn s) (the_name env)))])"
proof -
  have c: "ctl_inv s" and g: "go_tr_inv s" and n: "name_inv env s" and b: "bw_inv env s"
    using assms by (rule inv_parts)+
  from b have p: "bw_phase (the_name env) (trace s) \<noteq> Broken"
    by (cases "gpc s") (simp_all add: bw_inv_def)
  from b have w: "list_all (write_on (g_conn s)) (trace s)"
    by (simp add: bw_inv_def)
  from b g have d: "list_ex (dialed (g_conn s)) (trace s)" if "list_ex is_write (trace s)"
    using that by (cases "gpc s") (simp_all add: bw_inv_def go_tr_inv_def)
  have l: "trace (run env [T_go, T_go, T_go] s) =
              trace s @ [EvSleep Second, EvPrintf ''Broadcasting..'' [],
                         EvWrite (g_conn s) (the_name env)
                           (snd (conn_Write env
                                  (trace s @ [EvSleep Second, EvPrintf ''Broadcasting..'' []])
                                  (g_conn s) (the_name env)))]"
    if "status s = Running" "gpc s = G47"
  proof -
    from c that(2) have "2 \<le> mpos (mpc s)"
      by (cases "mpc s") (simp_all add: ctl_inv_def)
    with n have "v_name s = the_name env"
      by (simp add: name_inv_def)
    with that show ?thesis
      by (simp add: step_def go_step_def stmt_defs case_prod_beta)
  qed
  from p w d l show ?thesis by blast
qed

theorem broadcast_witness:
  "status (run env_ok to_loop_head init) = Running \<and>
   gpc (run env_ok to_loop_head init) = G47 \<and>
   trace (run env_ok [T_go, T_go, T_go] (run env_ok to_loop_head init)) =
     trace (run env_ok to_loop_head init) @
       [EvSleep 1000000000, EvPrintf ''Broadcasting..'' [],
        EvWrite (Some (UDPConn 3)) ''peer-42'' None] \<and>
   list_ex is_write (trace (run env_ok after_write init)) \<and>
   list_ex (dialed (g_conn (run env_ok after_write init))) (trace (run env_ok after_write init)) \<and>
   bw_phase (the_name env_ok) (trace (run env_ok after_write init)) \<noteq> Broken \<and>
   list_all (write_on (g_conn (run env_ok after_write init))) (trace (run env_ok after_write init))"
proof -
  have h1: "status (run env_ok to_loop_head init) = Running \<and>
            gpc (run env_ok to_loop_head init) = G47"
    by (simp add: exec_defs env_defs to_loop_head_def)
  have h2: "list_ex is_write (trace (run env_ok after_write init))"
    by (simp add: exec_defs env_defs after_write_def to_write_def)
  have e: "g_conn (run env_ok to_loop_head init) = Some (UDPConn 3)"
    "the_name env_ok = ''peer-42''" "Second = 1000000000"
    "\<And>tr c b. snd (conn_Write env_ok tr c b) = None"
    by (simp_all add: exec_defs env_defs to_loop_head_def the_name_def Itoa_42 Second_def)
  note t1 = broadcast_sleeps_then_writes_name [OF refl, of env_ok to_loop_head]
  note t2 = broadcast_sleeps_then_writes_name [OF refl, of env_ok after_write]
  from h1 t1 have "trace (run env_ok [T_go, T_go, T_go] (run env_ok to_loop_head init)) =
              trace (run env_ok to_loop_head init) @ [EvSleep Second, EvPrintf ''Broadcasting..'' [],
                 EvWrite (g_conn (run env_ok to_loop_head init)) (the_name env_ok)
                   (snd (conn_Write env_ok
                      (trace (run env_ok to_loop_head init) @ [EvSleep Second, EvPrintf ''Broadcasting..'' []])
                      (g_conn (run env_ok to_loop_head init)) (the_name env_ok)))]"
    by blast
  then have c1: "trace (run env_ok [T_go, T_go, T_go] (run env_ok to_loop_head init)) =
     trace (run env_ok to_loop_head init) @
       [EvSleep 1000000000, EvPrintf ''Broadcasting..'' [],
        EvWrite (Some (UDPConn 3)) ''peer-42'' None]"
    by (simp only: e)
  from h2 t2 have c2: "list_ex (dialed (g_conn (run env_ok after_write init))) (trace (run env_ok after_write init)) \<and>
      bw_phase (the_name env_ok) (trace (run env_ok after_write init)) \<noteq> Broken \<and>
      list_all (write_on (g_conn (run env_ok after_write init))) (trace (run env_ok after_write init))"
    by blast
  from h1 h2 c1 c2 show ?thesis by blast
qed

subsection \<open>C5: every datagram read is logged, none is filtered\<close>

text \<open>
  C5: in every run, the payloads and senders of the \<open>Received\<close> lines are, in order, the
  payloads and senders of the reads, with at most the read just made (\<open>main\<close> at line 86)
  still to be logged. And from line 85 the next two steps of \<open>main\<close> append the read and
  the \<open>Received\<close> line with the payload read and its sender, whatever the datagram, its
  sender and its error are: nothing is compared with the process's own identity or address.
\<close>

theorem every_datagram_logged:
  assumes "s = run env sched init"
  shows "(mpc s = L86 \<longrightarrow>
            reads (trace s) = received (trace s) @ [(take (v_n s) (v_buf s), v_addr s)]) \<and>
         (mpc s \<noteq> L86 \<longrightarrow> received (trace s) = reads (trace s)) \<and>
         (status s = Running \<and> mpc s = L85 \<longrightarrow>
            trace (run env [T_main, T_main] s) =
              trace s @ [EvReadFromUDP (v_conn s)
                           (take 1024 (dg_payload (recvfrom env (trace s) (v_conn s))))
                           (dg_from (recvfrom env (trace s) (v_conn s)))
                           (dg_err (recvfrom env (trace s) (v_conn s))),
                         EvPrintf ''Received '%s' from %s''
                           [S (take 1024 (dg_payload (recvfrom env (trace s) (v_conn s)))),
                            A (dg_from (recvfrom env (trace s) (v_conn s)))]])"
proof -
  have c: "ctl_inv s" and r: "rd_inv s"
    using assms by (rule inv_parts)+
  from r have a: "reads (trace s) = received (trace s) @ [(take (v_n s) (v_buf s), v_addr s)]"
    if "mpc s = L86"
    using that by (simp add: rd_inv_def)
  from r have b: "received (trace s) = reads (trace s)" if "mpc s \<noteq> L86"
    using that by (cases "mpc s") (simp_all add: rd_inv_def)
  have l: "trace (run env [T_main, T_main] s) =
              trace s @ [EvReadFromUDP (v_conn s)
                           (take 1024 (dg_payload (recvfrom env (trace s) (v_conn s))))
                           (dg_from (recvfrom env (trace s) (v_conn s)))
                           (dg_err (recvfrom env (trace s) (v_conn s))),
                         EvPrintf ''Received '%s' from %s''
                           [S (take 1024 (dg_payload (recvfrom env (trace s) (v_conn s)))),
                            A (dg_from (recvfrom env (trace s) (v_conn s)))]]"
    if "status s = Running" "mpc s = L85"
  proof -
    from c that(2) have "length (v_buf s) = 1024" by (rule buf_len)
    with that show ?thesis
      by (simp add: step_def main_step_def stmt_defs take_min_length)
  qed
  from a b l show ?thesis by blast
qed

theorem every_datagram_witness:
  "status (run env_ok to_read init) = Running \<and> mpc (run env_ok to_read init) = L85 \<and>
   v_name (run env_ok to_read init) = ''peer-42'' \<and>
   trace (run env_ok [T_main, T_main] (run env_ok to_read init)) =
     trace (run env_ok to_read init) @
       [EvReadFromUDP (v_conn (run env_ok to_read init)) ''peer-42'' (Some addr_sender) None,
        EvPrintf ''Received '%s' from %s'' [S ''peer-42'', A (Some addr_sender)]] \<and>
   received (trace (run env_ok to_read init)) = reads (trace (run env_ok to_read init)) \<and>
   mpc (run env_ok just_read init) = L86 \<and>
   reads (trace (run env_ok just_read init)) =
     received (trace (run env_ok just_read init)) @
       [(take (v_n (run env_ok just_read init)) (v_buf (run env_ok just_read init)),
         v_addr (run env_ok just_read init))]"
proof -
  have h1: "status (run env_ok to_read init) = Running \<and> mpc (run env_ok to_read init) = L85"
    by (simp add: exec_defs env_defs to_read_def)
  have h2: "mpc (run env_ok just_read init) = L86"
    by (simp add: exec_defs env_defs just_read_def to_read_def)
  have n: "v_name (run env_ok to_read init) = ''peer-42''"
    by (simp add: exec_defs env_defs to_read_def Itoa_42)
  have e: "\<And>tr c. dg_payload (recvfrom env_ok tr c) = ''peer-42''"
    "\<And>tr c. dg_from (recvfrom env_ok tr c) = Some addr_sender"
    "\<And>tr c. dg_err (recvfrom env_ok tr c) = None"
    by (simp_all add: env_defs)
  note t1 = every_datagram_logged [OF refl, of env_ok to_read]
  note t2 = every_datagram_logged [OF refl, of env_ok just_read]
  from h1 t1 have "trace (run env_ok [T_main, T_main] (run env_ok to_read init)) =
      trace (run env_ok to_read init) @
        [EvReadFromUDP (v_conn (run env_ok to_read init))
           (take 1024 (dg_payload (recvfrom env_ok (trace (run env_ok to_read init)) (v_conn (run env_ok to_read init)))))
           (dg_from (recvfrom env_ok (trace (run env_ok to_read init)) (v_conn (run env_ok to_read init))))
           (dg_err (recvfrom env_ok (trace (run env_ok to_read init)) (v_conn (run env_ok to_read init)))),
         EvPrintf ''Received '%s' from %s''
           [S (take 1024 (dg_payload (recvfrom env_ok (trace (run env_ok to_read init)) (v_conn (run env_ok to_read init))))),
            A (dg_from (recvfrom env_ok (trace (run env_ok to_read init)) (v_conn (run env_ok to_read init))))]]"
    by blast
  then have c1: "trace (run env_ok [T_main, T_main] (run env_ok to_read init)) =
     trace (run env_ok to_read init) @
       [EvReadFromUDP (v_conn (run env_ok to_read init)) ''peer-42'' (Some addr_sender) None,
        EvPrintf ''Received '%s' from %s'' [S ''peer-42'', A (Some addr_sender)]]"
    unfolding e by simp
  from h1 t1 have c2: "received (trace (run env_ok to_read init)) = reads (trace (run env_ok to_read init))"
    by simp
  from h2 t2 have c3: "reads (trace (run env_ok just_read init)) =
     received (trace (run env_ok just_read init)) @
       [(take (v_n (run env_ok just_read init)) (v_buf (run env_ok just_read init)),
         v_addr (run env_ok just_read init))]"
    by blast
  from h1 h2 n c1 c2 c3 show ?thesis by blast
qed

subsection \<open>C6: the logged payload is the first n bytes of the buffer\<close>

text \<open>
  C6: in every run, when \<open>main\<close> stands at line 85 and the datagram \<open>d\<close> arrives, the
  read returns \<open>n = min (length d) 1024\<close>, so \<open>n\<close> is at most 1024 and within the buffer,
  which is still 1024 bytes long; the error returned is the one that came with \<open>d\<close> (a long
  datagram adds none); the line logged next carries \<open>buf[0:n]\<close>, which is the first 1024
  bytes of \<open>d\<close> and so holds nothing of what the buffer held before; the slice does not
  panic and the process is still running.
\<close>

theorem logged_payload_is_read_prefix:
  assumes "s = run env sched init" and "status s = Running" and "mpc s = L85"
    and "d = recvfrom env (trace s) (v_conn s)"
    and "s1 = step env T_main s" and "s2 = step env T_main s1"
  shows "v_n s1 = min (length (dg_payload d)) 1024 \<and> v_n s1 \<le> 1024 \<and>
         length (v_buf s1) = 1024 \<and> v_n s1 \<le> length (v_buf s1) \<and>
         v_err s1 = dg_err d \<and>
         trace s2 = trace s1 @ [EvPrintf ''Received '%s' from %s''
                                  [S (take (v_n s1) (v_buf s1)), A (v_addr s1)]] \<and>
         take (v_n s1) (v_buf s1) = take 1024 (dg_payload d) \<and>
         status s2 = Running \<and> EvPanic \<notin> set (trace s2)"
proof -
  have c: "ctl_inv s" and m: "main_tr_inv s"
    using assms(1) by (rule inv_parts)+
  from c assms(3) have len: "length (v_buf s) = 1024"
    by (rule buf_len)
  from m have np: "EvPanic \<notin> set (trace s)"
    by (simp add: main_tr_inv_def)
  from assms(2-6) len np show ?thesis
    by (simp add: step_def main_step_def stmt_defs take_min_length)
qed

theorem read_prefix_witness:
  "status (run env_big to_read init) = Running \<and> mpc (run env_big to_read init) = L85 \<and>
   v_n (step env_big T_main (run env_big to_read init)) = 1024 \<and>
   v_err (step env_big T_main (run env_big to_read init)) = None \<and>
   take (v_n (step env_big T_main (run env_big to_read init)))
        (v_buf (step env_big T_main (run env_big to_read init))) = replicate 1024 (CHR ''x'') \<and>
   status (step env_big T_main (step env_big T_main (run env_big to_read init))) = Running \<and>
   status (run env_long_then_short one_read_later init) = Running \<and>
   mpc (run env_long_then_short one_read_later init) = L85 \<and>
   take 15 (v_buf (run env_long_then_short one_read_later init)) = ''peer-1234567890'' \<and>
   take (v_n (step env_long_then_short T_main (run env_long_then_short one_read_later init)))
        (v_buf (step env_long_then_short T_main (run env_long_then_short one_read_later init)))
     = ''peer-7''"
proof -
  have hs: "status (run env_big to_read init) = Running"
    and hm: "mpc (run env_big to_read init) = L85"
    by (simp_all add: exec_defs env_defs to_read_def)
  have e: "\<And>tr c. dg_payload (recvfrom env_big tr c) = replicate 1030 (CHR ''x'')"
    "\<And>tr c. dg_err (recvfrom env_big tr c) = None"
    by (simp_all add: env_defs)
  have k: "min (length (replicate 1030 (CHR ''x''))) 1024 = (1024::nat)"
    "take 1024 (replicate 1030 (CHR ''x'')) = replicate 1024 (CHR ''x'')"
    by simp_all
  note t = logged_payload_is_read_prefix [OF refl hs hm refl refl refl, unfolded e k]
  from t have c: "v_n (step env_big T_main (run env_big to_read init)) = 1024 \<and>
     v_err (step env_big T_main (run env_big to_read init)) = None \<and>
     take (v_n (step env_big T_main (run env_big to_read init)))
        (v_buf (step env_big T_main (run env_big to_read init))) = replicate 1024 (CHR ''x'') \<and>
     status (step env_big T_main (step env_big T_main (run env_big to_read init))) = Running"
    by blast
  have hs': "status (run env_long_then_short one_read_later init) = Running"
    and hm': "mpc (run env_long_then_short one_read_later init) = L85"
    and b: "take 15 (v_buf (run env_long_then_short one_read_later init)) = ''peer-1234567890''"
    and r: "list_ex is_read (trace (run env_long_then_short one_read_later init))"
    by (simp_all add: exec_defs env_defs one_read_later_def to_read_def)
  have e': "\<And>tr c. dg_payload (recvfrom env_long_then_short tr c) =
      (if list_ex is_read tr then ''peer-7'' else ''peer-1234567890'')"
    by (simp add: env_defs)
  from r have r': "list_ex is_read (trace (run env_long_then_short one_read_later init)) = True"
    by simp
  have k': "take 1024 ''peer-7'' = ''peer-7''"
    by simp
  note t' = logged_payload_is_read_prefix [OF refl hs' hm' refl refl refl, unfolded e' r' if_True k']
  from t' have c': "take (v_n (step env_long_then_short T_main (run env_long_then_short one_read_later init)))
        (v_buf (step env_long_then_short T_main (run env_long_then_short one_read_later init)))
     = ''peer-7''"
    by blast
  from hs hm c hs' hm' b c' show ?thesis by blast
qed

subsection \<open>C7: a startup failure ends the whole process\<close>

text \<open>
  C7: in every run, once the dial of the goroutine has failed, the goroutine's next step
  leaves the process exited with status 1; once the bind of \<open>main\<close> has failed, the
  next step of \<open>main\<close> does the same; and a process that has exited has status 1 and
  takes no further step in either thread, whatever the schedule \<open>later\<close>.
\<close>

theorem startup_failure_exits_process:
  assumes "s = run env sched init"
  shows "(list_ex dial_failed (trace s) \<longrightarrow> status (step env T_go s) = Exited 1) \<and>
         (list_ex listen_failed (trace s) \<longrightarrow> status (step env T_main s) = Exited 1) \<and>
         (status s \<noteq> Running \<longrightarrow> status s = Exited 1 \<and> run env later s = s)"
proof -
  have inv: "ctl_inv s" "main_tr_inv s" "go_tr_inv s"
    using assms by (rule inv_parts)+
  have a: "status (step env T_go s) = Exited 1" if f: "list_ex dial_failed (trace s)"
  proof -
    from f inv(3) have pc: "gpc s = G42" and e: "g_err s \<noteq> None"
      by (cases "gpc s"; simp add: go_tr_inv_def)+
    with inv(1) show ?thesis
      by (cases "status s = Running") (auto simp add: step_def go_step_def Fatalf_def emit_def ctl_inv_def)
  qed
  have b: "status (step env T_main s) = Exited 1" if f: "list_ex listen_failed (trace s)"
  proof -
    from f inv(2) have pc: "mpc s = L69" and e: "v_err s \<noteq> None"
      by (cases "mpc s"; simp add: main_tr_inv_def)+
    with inv(1) show ?thesis
      by (cases "status s = Running") (auto simp add: step_def main_step_def Fatalf_def emit_def ctl_inv_def)
  qed
  have c: "status s = Exited 1 \<and> run env later s = s" if "status s \<noteq> Running"
    using that inv(1) by (simp add: ctl_inv_def run_exited)
  from a b c show ?thesis by blast
qed

theorem startup_failure_witness:
  "list_ex dial_failed (trace (run env_no_dial dial_fails init)) \<and>
   status (run env_no_dial dial_fails init) \<noteq> Running \<and>
   status (step env_no_dial T_go (run env_no_dial dial_fails init)) = Exited 1 \<and>
   status (run env_no_dial dial_fails init) = Exited 1 \<and>
   run env_no_dial [T_main, T_go, T_main] (run env_no_dial dial_fails init)
     = run env_no_dial dial_fails init \<and>
   list_ex listen_failed (trace (run env_no_bind bind_fails init)) \<and>
   status (step env_no_bind T_main (run env_no_bind bind_fails init)) = Exited 1"
proof -
  have h1: "list_ex dial_failed (trace (run env_no_dial dial_fails init))"
    by (simp add: exec_defs env_no_dial_def env_ok_def dial_fails_def)
  have h2: "status (run env_no_dial dial_fails init) \<noteq> Running"
    by (simp add: exec_defs env_no_dial_def env_ok_def dial_fails_def)
  have h3: "list_ex listen_failed (trace (run env_no_bind bind_fails init))"
    by (simp add: exec_defs env_no_bind_def env_ok_def bind_fails_def)
  from h1 h2 h3
    startup_failure_exits_process [OF refl, of env_no_dial dial_fails "[T_main, T_go, T_main]"]
    startup_failure_exits_process [OF refl, of env_no_bind bind_fails]
  show ?thesis by blast
qed

subsection \<open>C8: the two addresses and the port\<close>

text \<open>
  C8: the port is 2002; the address resolved for the broadcaster is
  \<open>255.255.255.255:2002\<close> and the address resolved for the listener is \<open>:2002\<close> (no
  host: the wildcard address). In every run every resolution is of one of these two
  strings on network \<open>udp\<close>, every dial is to the address that the resolution of the first
  returned, every bind is to the address that the resolution of the second returned, and
  there is at most one dial and at most one bind. The calls are made: line 31 resolves the
  first string and line 60 the second; the goroutine's step at line 41 dials
  \<open>bCastAddr\<close>, which the resolution of the first string returned; the step of \<open>main\<close> at
  line 68 binds \<open>listenAddr\<close>, which the resolution of the second string returned. And
  whenever both resolutions succeed, the run \<open>both_calls\<close> contains such a dial and such
  a bind.
\<close>

theorem addresses_and_port:
  assumes "s = run env sched init"
  shows "commonPort = 2002 \<and> bcast_address = ''255.255.255.255:2002'' \<and>
         listen_address = '':2002'' \<and>
         list_all (addr_ok (trace s)) (trace s) \<and>
         length (filter is_dial (trace s)) \<le> 1 \<and>
         length (filter is_listen (trace s)) \<le> 1 \<and>
         (status s = Running \<and> mpc s = L31 \<longrightarrow>
            trace (step env T_main s) = trace s @
              [EvResolveUDPAddr ''udp'' ''255.255.255.255:2002''
                 (fst (ResolveUDPAddr env (trace s) ''udp'' ''255.255.255.255:2002''))
                 (snd (ResolveUDPAddr env (trace s) ''udp'' ''255.255.255.255:2002''))]) \<and>
         (status s = Running \<and> gpc s = G41 \<longrightarrow>
            EvResolveUDPAddr ''udp'' ''255.255.255.255:2002'' (v_bCastAddr s) None \<in> set (trace s) \<and>
            trace (step env T_go s) = trace s @
              [EvDialUDP ''udp'' None (v_bCastAddr s)
                 (fst (DialUDP env (trace s) ''udp'' None (v_bCastAddr s)))
                 (snd (DialUDP env (trace s) ''udp'' None (v_bCastAddr s)))]) \<and>
         (status s = Running \<and> mpc s = L60 \<longrightarrow>
            trace (step env T_main s) = trace s @
              [EvResolveUDPAddr ''udp'' '':2002''
                 (fst (ResolveUDPAddr env (trace s) ''udp'' '':2002''))
                 (snd (ResolveUDPAddr env (trace s) ''udp'' '':2002''))]) \<and>
         (status s = Running \<and> mpc s = L68 \<longrightarrow>
            EvResolveUDPAddr ''udp'' '':2002'' (v_listenAddr s) None \<in> set (trace s) \<and>
            trace (step env T_main s) = trace s @
              [EvListenUDP ''udp'' (v_listenAddr s)
                 (fst (ListenUDP env (trace s) ''udp'' (v_listenAddr s)))
                 (snd (ListenUDP env (trace s) ''udp'' (v_listenAddr s)))]) \<and>
         ((\<forall>tr net a. snd (ResolveUDPAddr env tr net a) = None) \<longrightarrow>
            (\<exists>b. EvResolveUDPAddr ''udp'' ''255.255.255.255:2002'' b None
                    \<in> set (trace (run env both_calls init)) \<and>
                 list_ex (dial_to b) (trace (run env both_calls init))) \<and>
            (\<exists>a. EvResolveUDPAddr ''udp'' '':2002'' a None
                    \<in> set (trace (run env both_calls init)) \<and>
                 list_ex (bind_to a) (trace (run env both_calls init))))"
proof -
  have c: "ctl_inv s" and a: "addr_inv s" and m: "main_tr_inv s" and g: "go_tr_inv s"
    using assms by (rule inv_parts)+
  from g have n1: "length (filter is_dial (trace s)) \<le> 1"
    by (cases "gpos (gpc s) \<le> 2") (simp_all add: go_tr_inv_def)
  from m have n2: "length (filter is_listen (trace s)) \<le> 1"
    by (cases "mpos (mpc s) \<le> 13") (simp_all add: main_tr_inv_def)
  from a have ok: "list_all (addr_ok (trace s)) (trace s)"
    by (simp add: addr_inv_def)
  have r1: "trace (step env T_main s) = trace s @
              [EvResolveUDPAddr ''udp'' ''255.255.255.255:2002''
                 (fst (ResolveUDPAddr env (trace s) ''udp'' ''255.255.255.255:2002''))
                 (snd (ResolveUDPAddr env (trace s) ''udp'' ''255.255.255.255:2002''))]"
    if "status s = Running" "mpc s = L31"
    using that by (simp add: step_def main_step_def stmt_defs case_prod_beta bcast_address_eq)
  have r2: "trace (step env T_main s) = trace s @
              [EvResolveUDPAddr ''udp'' '':2002''
                 (fst (ResolveUDPAddr env (trace s) ''udp'' '':2002''))
                 (snd (ResolveUDPAddr env (trace s) ''udp'' '':2002''))]"
    if "status s = Running" "mpc s = L60"
    using that by (simp add: step_def main_step_def stmt_defs case_prod_beta listen_address_eq)
  have d: "EvResolveUDPAddr ''udp'' ''255.255.255.255:2002'' (v_bCastAddr s) None \<in> set (trace s) \<and>
            trace (step env T_go s) = trace s @
              [EvDialUDP ''udp'' None (v_bCastAddr s)
                 (fst (DialUDP env (trace s) ''udp'' None (v_bCastAddr s)))
                 (snd (DialUDP env (trace s) ''udp'' None (v_bCastAddr s)))]"
    if "status s = Running" "gpc s = G41"
  proof -
    from c that(2) have "6 \<le> mpos (mpc s)"
      by (cases "mpos (mpc s) \<le> 7") (simp_all add: ctl_inv_def)
    with a have "EvResolveUDPAddr ''udp'' ''255.255.255.255:2002'' (v_bCastAddr s) None \<in> set (trace s)"
      by (simp add: addr_inv_def)
    with that show ?thesis
      by (simp add: step_def go_step_def stmt_defs case_prod_beta)
  qed
  have l: "EvResolveUDPAddr ''udp'' '':2002'' (v_listenAddr s) None \<in> set (trace s) \<and>
            trace (step env T_main s) = trace s @
              [EvListenUDP ''udp'' (v_listenAddr s)
                 (fst (ListenUDP env (trace s) ''udp'' (v_listenAddr s)))
                 (snd (ListenUDP env (trace s) ''udp'' (v_listenAddr s)))]"
    if "status s = Running" "mpc s = L68"
  proof -
    from a that(2) have "EvResolveUDPAddr ''udp'' '':2002'' (v_listenAddr s) None \<in> set (trace s)"
      by (simp add: addr_inv_def)
    with that show ?thesis
      by (simp add: step_def main_step_def stmt_defs case_prod_beta)
  qed
  have p: "(\<exists>b. EvResolveUDPAddr ''udp'' ''255.255.255.255:2002'' b None
                    \<in> set (trace (run env both_calls init)) \<and>
                 list_ex (dial_to b) (trace (run env both_calls init))) \<and>
            (\<exists>a. EvResolveUDPAddr ''udp'' '':2002'' a None
                    \<in> set (trace (run env both_calls init)) \<and>
                 list_ex (bind_to a) (trace (run env both_calls init)))"
    if res: "\<forall>tr net a. snd (ResolveUDPAddr env tr net a) = None"
  proof -
    have "addr_inv (run env both_calls init)"
      by (rule inv_parts [OF refl])
    then have ok': "list_all (addr_ok (trace (run env both_calls init))) (trace (run env both_calls init))"
      by (simp add: addr_inv_def)
    from res have made: "list_ex is_dial (trace (run env both_calls init)) \<and>
         list_ex is_listen (trace (run env both_calls init))"
      by (intro both_calls_made) simp
    from ok' made show ?thesis
      by (simp add: dial_target bind_target)
  qed
  from n1 n2 ok r1 r2 d l p show ?thesis
    by (simp add: commonPort_def bcast_address_eq listen_address_eq)
qed

theorem addresses_witness:
  "commonPort = 2002 \<and> bcast_address = ''255.255.255.255:2002'' \<and>
   listen_address = '':2002'' \<and>
   list_all (addr_ok (trace (run env_ok both_calls init))) (trace (run env_ok both_calls init)) \<and>
   status (run env_ok to_L31 init) = Running \<and> mpc (run env_ok to_L31 init) = L31 \<and>
   trace (step env_ok T_main (run env_ok to_L31 init)) = trace (run env_ok to_L31 init) @
     [EvResolveUDPAddr ''udp'' ''255.255.255.255:2002'' (Some addr_bcast) None] \<and>
   status (run env_ok to_G41 init) = Running \<and> gpc (run env_ok to_G41 init) = G41 \<and>
   trace (step env_ok T_go (run env_ok to_G41 init)) = trace (run env_ok to_G41 init) @
     [EvDialUDP ''udp'' None (Some addr_bcast) (Some (UDPConn 3)) None] \<and>
   status (run env_ok to_L60 init) = Running \<and> mpc (run env_ok to_L60 init) = L60 \<and>
   trace (step env_ok T_main (run env_ok to_L60 init)) = trace (run env_ok to_L60 init) @
     [EvResolveUDPAddr ''udp'' '':2002'' (Some addr_any) None] \<and>
   status (run env_ok to_L68 init) = Running \<and> mpc (run env_ok to_L68 init) = L68 \<and>
   trace (step env_ok T_main (run env_ok to_L68 init)) = trace (run env_ok to_L68 init) @
     [EvListenUDP ''udp'' (Some addr_any) (Some (UDPConn 4)) None] \<and>
   (\<forall>tr net a. snd (ResolveUDPAddr env_ok tr net a) = None) \<and>
   (\<exists>b. EvResolveUDPAddr ''udp'' ''255.255.255.255:2002'' b None
           \<in> set (trace (run env_ok both_calls init)) \<and>
        list_ex (dial_to b) (trace (run env_ok both_calls init))) \<and>
   (\<exists>a. EvResolveUDPAddr ''udp'' '':2002'' a None
           \<in> set (trace (run env_ok both_calls init)) \<and>
        list_ex (bind_to a) (trace (run env_ok both_calls init))) \<and>
   list_ex (dial_to (Some addr_bcast)) (trace (run env_ok both_calls init)) \<and>
   list_ex (bind_to (Some addr_any)) (trace (run env_ok both_calls init))"
proof -
  have h31: "status (run env_ok to_L31 init) = Running \<and> mpc (run env_ok to_L31 init) = L31"
    by (simp add: exec_defs env_defs to_L31_def)
  have h41: "status (run env_ok to_G41 init) = Running \<and> gpc (run env_ok to_G41 init) = G41"
    by (simp add: exec_defs env_defs to_G41_def)
  have h60: "status (run env_ok to_L60 init) = Running \<and> mpc (run env_ok to_L60 init) = L60"
    by (simp add: exec_defs env_defs to_L60_def)
  have h68: "status (run env_ok to_L68 init) = Running \<and> mpc (run env_ok to_L68 init) = L68"
    by (simp add: exec_defs env_defs to_L68_def)
  have v: "v_bCastAddr (run env_ok to_G41 init) = Some addr_bcast"
    "v_listenAddr (run env_ok to_L68 init) = Some addr_any"
    by (simp_all add: exec_defs env_defs to_G41_def to_L68_def)
  have e: "\<And>tr net. ResolveUDPAddr env_ok tr net ''255.255.255.255:2002'' = (Some addr_bcast, None)"
    "\<And>tr net. ResolveUDPAddr env_ok tr net '':2002'' = (Some addr_any, None)"
    "\<And>tr net l r. DialUDP env_ok tr net l r = (Some (UDPConn 3), None)"
    "\<And>tr net l. ListenUDP env_ok tr net l = (Some (UDPConn 4), None)"
    by (simp_all add: env_defs)
  have res: "\<forall>tr net a. snd (ResolveUDPAddr env_ok tr net a) = None"
    by (simp add: env_defs)
  have ev: "list_ex (dial_to (Some addr_bcast)) (trace (run env_ok both_calls init)) \<and>
      list_ex (bind_to (Some addr_any)) (trace (run env_ok both_calls init))"
    by (simp add: exec_defs env_defs both_calls_def)
  note t0 = addresses_and_port [OF refl, of env_ok both_calls]
  note t31 = addresses_and_port [OF refl, of env_ok to_L31, unfolded e fst_conv snd_conv]
  note t41 = addresses_and_port [OF refl, of env_ok to_G41, unfolded e v fst_conv snd_conv]
  note t60 = addresses_and_port [OF refl, of env_ok to_L60, unfolded e fst_conv snd_conv]
  note t68 = addresses_and_port [OF refl, of env_ok to_L68, unfolded e v fst_conv snd_conv]
  from t0 have c0: "commonPort = 2002 \<and> bcast_address = ''255.255.255.255:2002'' \<and>
     listen_address = '':2002'' \<and>
     list_all (addr_ok (trace (run env_ok both_calls init))) (trace (run env_ok both_calls init))"
    by blast
  from res t0 have cp: "(\<exists>b. EvResolveUDPAddr ''udp'' ''255.255.255.255:2002'' b None
           \<in> set (trace (run env_ok both_calls init)) \<and>
        list_ex (dial_to b) (trace (run env_ok both_calls init))) \<and>
     (\<exists>a. EvResolveUDPAddr ''udp'' '':2002'' a None
           \<in> set (trace (run env_ok both_calls init)) \<and>
        list_ex (bind_to a) (trace (run env_ok both_calls init)))"
    by blast
  from h31 t31 have c31: "trace (step env_ok T_main (run env_ok to_L31 init)) =
     trace (run env_ok to_L31 init) @
     [EvResolveUDPAddr ''udp'' ''255.255.255.255:2002'' (Some addr_bcast) None]"
    by blast
  from h41 t41 have c41: "trace (step env_ok T_go (run env_ok to_G41 init)) =
     trace (run env_ok to_G41 init) @
     [EvDialUDP ''udp'' None (Some addr_bcast) (Some (UDPConn 3)) None]"
    by blast
  from h60 t60 have c60: "trace (step env_ok T_main (run env_ok to_L60 init)) =
     trace (run env_ok to_L60 init) @
     [EvResolveUDPAddr ''udp'' '':2002'' (Some addr_any) None]"
    by blast
  from h68 t68 have c68: "trace (step env_ok T_main (run env_ok to_L68 init)) =
     trace (run env_ok to_L68 init) @
     [EvListenUDP ''udp'' (Some addr_any) (Some (UDPConn 4)) None]"
    by blast
  from c0 h31 c31 h41 c41 h60 c60 h68 c68 res cp ev show ?thesis
    by blast
qed

subsection \<open>C9: no exit once startup has succeeded\<close>

text \<open>
  C9: take any state of any run in which the dial has returned without error and the
  bind has returned without error (the two resolutions then had succeeded too, or
  \<open>main\<close> would not have come to the bind). Under every further schedule \<open>later\<close>
  the process is still running, both threads are still past their startup checks,
  \<open>main\<close> has not reached its end (line 92), and no deferred \<open>Close\<close> has run.
\<close>

theorem no_exit_after_startup:
  assumes "s = run env sched init"
    and "list_ex dial_ok (trace s)" and "list_ex listen_ok (trace s)"
    and "s' = run env later s"
  shows "status s' = Running \<and> startup_done s' \<and> mpc s' \<noteq> L92 \<and>
         \<not> list_ex is_close (trace s')"
proof -
  have c: "ctl_inv s" and m: "main_tr_inv s" and g: "go_tr_inv s"
    using assms(1) by (rule inv_parts)+
  from c m g assms(2,3) have "startup_done s"
    by (rule startup_events_done)
  with c have start: "ctl_inv s \<and> startup_done s"
    by (rule conjI)
  have both: "ctl_inv s' \<and> startup_done s'"
    unfolding assms(4)
    by (rule run_invariant [where P = "\<lambda>s. ctl_inv s \<and> startup_done s", OF start])
       (simp add: ctl_inv_step startup_done_step)
  have "s' = run env (sched @ later) init"
    by (simp add: assms run_append)
  then have tr: "main_tr_inv s'"
    by (rule inv_parts)
  from both have "status s' = Running"
    by (simp add: startup_done_running)
  moreover from both have "mpc s' \<noteq> L92"
    by (simp add: ctl_inv_def)
  moreover from tr have "\<not> list_ex is_close (trace s')"
    by (simp add: main_tr_inv_def)
  ultimately show ?thesis using both by simp
qed

theorem no_exit_after_startup_witness:
  "list_ex dial_ok (trace (run env_ok startup_sched init)) \<and>
   list_ex listen_ok (trace (run env_ok startup_sched init)) \<and>
   status (run env_ok some_more (run env_ok startup_sched init)) = Running \<and>
   startup_done (run env_ok some_more (run env_ok startup_sched init)) \<and>
   mpc (run env_ok some_more (run env_ok startup_sched init)) \<noteq> L92 \<and>
   \<not> list_ex is_close (trace (run env_ok some_more (run env_ok startup_sched init)))"
proof -
  have h1: "list_ex dial_ok (trace (run env_ok startup_sched init))"
    and h2: "list_ex listen_ok (trace (run env_ok startup_sched init))"
    by (simp_all add: exec_defs env_defs startup_sched_def)
  from h1 h2 no_exit_after_startup [OF refl h1 h2 refl, of some_more]
  show ?thesis by blast
qed

subsection \<open>C10: a failed read is logged as received first, then its error\<close>

text \<open>
  C10: in every run, when \<open>main\<close> stands at line 85 and the read returns the error \<open>e\<close>
  together with the bytes \<open>p\<close> and the sender \<open>dg_from d\<close>, the next three steps of
  \<open>main\<close> append exactly: the read, the line \<open>Received 'p' from sender\<close>, and only then
  the line \<open>Error: e\<close>.
\<close>

theorem failed_read_logged_before_error:
  assumes "s = run env sched init" and "status s = Running" and "mpc s = L85"
    and "d = recvfrom env (trace s) (v_conn s)" and "dg_err d = Some e"
    and "p = take 1024 (dg_payload d)"
  shows "trace (run env [T_main, T_main, T_main] s) =
           trace s @ [EvReadFromUDP (v_conn s) p (dg_from d) (Some e),
                      EvPrintf ''Received '%s' from %s'' [S p, A (dg_from d)],
                      EvPrintf ''Error: %s'' [S (Error_msg e)]] \<and>
         v_n (step env T_main s) = length p \<and>
         v_addr (step env T_main s) = dg_from d \<and>
         status (run env [T_main, T_main, T_main] s) = Running"
proof -
  have c: "ctl_inv s"
    using assms(1) by (rule inv_parts)
  from c assms(3) have len: "length (v_buf s) = 1024"
    by (rule buf_len)
  from assms(2-6) len show ?thesis
    by (simp add: step_def main_step_def stmt_defs take_min_length)
qed

theorem failed_read_witness:
  "status (run env_read_err to_read init) = Running \<and>
   mpc (run env_read_err to_read init) = L85 \<and>
   dg_err (recvfrom env_read_err (trace (run env_read_err to_read init))
             (v_conn (run env_read_err to_read init))) = Some (Error ''i/o timeout'') \<and>
   trace (run env_read_err [T_main, T_main, T_main] (run env_read_err to_read init)) =
     trace (run env_read_err to_read init) @
       [EvReadFromUDP (v_conn (run env_read_err to_read init)) ''pee'' (Some addr_sender)
          (Some (Error ''i/o timeout'')),
        EvPrintf ''Received '%s' from %s'' [S ''pee'', A (Some addr_sender)],
        EvPrintf ''Error: %s'' [S ''i/o timeout'']] \<and>
   v_n (step env_read_err T_main (run env_read_err to_read init)) = 3 \<and>
   v_addr (step env_read_err T_main (run env_read_err to_read init)) = Some addr_sender \<and>
   status (run env_read_err [T_main, T_main, T_main] (run env_read_err to_read init)) = Running"
proof -
  have hs: "status (run env_read_err to_read init) = Running"
    and hm: "mpc (run env_read_err to_read init) = L85"
    by (simp_all add: exec_defs env_defs to_read_def)
  have e: "\<And>tr c. dg_payload (recvfrom env_read_err tr c) = ''pee''"
    "\<And>tr c. dg_from (recvfrom env_read_err tr c) = Some addr_sender"
    "\<And>tr c. dg_err (recvfrom env_read_err tr c) = Some (Error ''i/o timeout'')"
    by (simp_all add: env_defs)
  note t = failed_read_logged_before_error [OF refl hs hm refl e(3) refl]
  from t have c: "trace (run env_read_err [T_main, T_main, T_main] (run env_read_err to_read init)) =
     trace (run env_read_err to_read init) @
       [EvReadFromUDP (v_conn (run env_read_err to_read init)) ''pee'' (Some addr_sender)
          (Some (Error ''i/o timeout'')),
        EvPrintf ''Received '%s' from %s'' [S ''pee'', A (Some addr_sender)],
        EvPrintf ''Error: %s'' [S ''i/o timeout'']] \<and>
     v_n (step env_read_err T_main (run env_read_err to_read init)) = 3 \<and>
     v_addr (step env_read_err T_main (run env_read_err to_read init)) = Some addr_sender \<and>
     status (run env_read_err [T_main, T_main, T_main] (run env_read_err to_read init)) = Running"
    unfolding e by simp
  from hs hm e(3) c show ?thesis by blast
qed

end
